theory Spec2Isabelle
  imports Complex_Main "HOL-Library.Sublist"
begin

section \<open>Conventions\<close>

text \<open>
  The toolkit is three Tk windows: \<open>CdACalculatorWindow\<close> and \<open>CdAPlotWindow\<close>
  (cda_calculator.py) and \<open>VenturiMdotWindow\<close> (handlers/plot_ox_mdot_venturi.py).
  Every handler is modelled as a function from the attributes it reads to the attributes
  it writes; a message box is a value of type \<open>notice\<close> returned with the new state.

  Python floats are read as real numbers: rounding, overflow, infinities and the decimal
  rendering of a number in a label are outside the model. A NaN in a numpy array is
  \<open>None\<close> in a list of \<open>real option\<close>. The text of an entry field is modelled by
  what \<open>float()\<close> makes of it: \<open>None\<close> where it raises ValueError.
\<close>

type_synonym entry = "real option"

subsection \<open>Unit conversion constants\<close>

definition LBS_TO_KG :: real where
  "LBS_TO_KG = 0.453592"

definition PSI_TO_PA :: real where
  "PSI_TO_PA = 6894.76"

definition IN2_TO_M2 :: real where
  "IN2_TO_M2 = 0.00064516"

definition MAX_PLOT_POINTS :: nat where
  "MAX_PLOT_POINTS = 2000"

subsection \<open>Arrays\<close>

text \<open>
  Boolean-mask indexing \<open>xs[msk]\<close> and the strided selections \<open>xs[::step]\<close> and
  \<open>xs[np.arange(0, n, step)]\<close> (the element at 0, then every \<open>step\<close>-th one). The
  stride is at least 1 wherever the source takes one.
\<close>

definition select :: "bool list \<Rightarrow> 'a list \<Rightarrow> 'a list" where
  "select msk xs = map fst (filter snd (zip xs msk))"

fun every_nth :: "nat \<Rightarrow> 'a list \<Rightarrow> 'a list" where
  "every_nth step [] = []"
| "every_nth step (x # xs) = x # every_nth step (drop (step - 1) xs)"

text \<open>\<open>~(np.isnan(x) | np.isnan(y))\<close> and \<open>series.isna().all()\<close>.\<close>

definition both_valid :: "real option \<Rightarrow> real option \<Rightarrow> bool" where
  "both_valid x y = (\<not> (x = None \<or> y = None))"

definition isna_all :: "real option list \<Rightarrow> bool" where
  "isna_all xs = list_all (\<lambda>v. v = None) xs"

subsection \<open>Table cells\<close>

text \<open>
  The conversions of pandas (\<open>pd.to_numeric(errors='coerce')\<close>,
  \<open>pd.to_datetime(errors='coerce')\<close>, \<open>.astype(float)\<close>) are parameters of the
  functions below, over any type of cells: \<open>to_numeric\<close> and \<open>to_datetime\<close> give
  \<open>None\<close> for NaN and NaT, a timestamp being its number of seconds; \<open>astype_float\<close>
  gives \<open>None\<close> where the conversion raises ValueError and \<open>Some None\<close> for NaN.
  The type \<open>cell\<close> and its three conversions serve the concrete tables of the
  examples: a number, a timestamp (in seconds), or any other text. pandas reads a bare
  number given as a date as nanoseconds since the epoch.
\<close>

datatype cell = Number real | Timestamp real | Text

fun cell_to_numeric :: "cell \<Rightarrow> real option" where
  "cell_to_numeric (Number r) = Some r"
| "cell_to_numeric (Timestamp t) = None"
| "cell_to_numeric Text = None"

fun cell_to_datetime :: "cell \<Rightarrow> real option" where
  "cell_to_datetime (Timestamp t) = Some t"
| "cell_to_datetime (Number r) = Some (r / 1000000000)"
| "cell_to_datetime Text = None"

fun cell_astype_float :: "cell \<Rightarrow> real option option" where
  "cell_astype_float (Number r) = Some (Some r)"
| "cell_astype_float Text = None"
| "cell_astype_float (Timestamp t) = None"

subsection \<open>Notifications\<close>

text \<open>
  One constructor for each message box of the three calculation handlers.
  \<open>NotNumeric\<close> and \<open>InvalidInputValue\<close> are the two ValueError handlers,
  \<open>CalculationFailed\<close> the catch-all \<open>except Exception\<close>.
\<close>

datatype notice =
    NotNumeric
  | MdotMissing
  | PHighNotGreater
  | DensityNotPositive
  | CdANotPositive
  | ColumnsNotSelected
  | AreasNotPositive
  | ThroatNotSmaller
  | CdOutOfRange
  | InvalidInputValue
  | CalculationFailed

section \<open>Column auto-detection (CdACalculatorWindow)\<close>

text \<open>
  Column names are strings of bytes. \<open>lower\<close> is \<open>str.lower\<close> on ASCII letters;
  Python also maps capitals outside ASCII, which stay as they are here. The test
  \<open>"time" in col_lower\<close> is \<open>sublist\<close>: a contiguous occurrence.
\<close>

definition lower_char :: "char \<Rightarrow> char" where
  "lower_char c =
     (let n = (of_char c :: nat) in if 65 \<le> n \<and> n \<le> 90 then char_of (n + 32) else c)"

definition lower :: "string \<Rightarrow> string" where
  "lower s = map lower_char s"

text \<open>
  The three comboboxes hold the displayed selection (the empty string when nothing is
  selected); the three \<open>_col\<close> attributes start as \<open>None\<close>.
\<close>

record column_selection =
  time_combo :: string
  pressure_combo :: string
  weight_combo :: string
  time_col :: "string option"
  pressure_col :: "string option"
  weight_col :: "string option"

text \<open>The body of the loop of \<open>_autodetect_columns\<close>: one if/elif/elif chain.\<close>

definition autodetect_step :: "column_selection \<Rightarrow> string \<Rightarrow> column_selection" where
  "autodetect_step s col =
     (let col_lower = lower col in
      if sublist ''time'' col_lower \<or> col_lower = ''t'' then
        s\<lparr>time_combo := col, time_col := Some col\<rparr>
      else if sublist ''pressure'' col_lower \<or> sublist ''press'' col_lower then
        (if pressure_combo s = [] then s\<lparr>pressure_combo := col, pressure_col := Some col\<rparr>
         else s)
      else if sublist ''weight'' col_lower \<or> sublist ''mass'' col_lower then
        (if weight_combo s = [] then s\<lparr>weight_combo := col, weight_col := Some col\<rparr>
         else s)
      else s)"

definition autodetect_columns :: "column_selection \<Rightarrow> string list \<Rightarrow> column_selection" where
  "autodetect_columns s columns = foldl autodetect_step s columns"

section \<open>CdA and set-pressure calculators (CdACalculatorWindow)\<close>

text \<open>
  The attributes the two calculations read and write. A result label holds the number
  it displays (\<open>None\<close> for the initial "--"); \<open>result_units\<close> is the value in
  square millimetres.
\<close>

record calculator =
  p_high_var :: entry
  p_low_var :: entry
  rho_var :: entry
  calculated_mdot :: "real option"
  calculated_cda :: "real option"
  result_label :: "real option"
  result_units :: "real option"
  setpoint_cda_var :: entry
  setpoint_mdot_var :: entry
  setpoint_rho_var :: entry
  manifold_p_var :: entry
  setpoint_result_label :: "real option"
  setpoint_result_pa :: "real option"

text \<open>
  \<open>_calculate_cda\<close>: the three entries are converted first (ValueError gives
  \<open>NotNumeric\<close>), then the stored mass flow is required, then the two range checks;
  only then are the result and the labels written.
\<close>

definition calculate_cda :: "calculator \<Rightarrow> notice option \<times> calculator" where
  "calculate_cda s =
     (case p_high_var s of None \<Rightarrow> (Some NotNumeric, s) | Some p_high_psi \<Rightarrow>
      case p_low_var s of None \<Rightarrow> (Some NotNumeric, s) | Some p_low_psi \<Rightarrow>
      case rho_var s of None \<Rightarrow> (Some NotNumeric, s) | Some rho \<Rightarrow>
      case calculated_mdot s of None \<Rightarrow> (Some MdotMissing, s) | Some mdot \<Rightarrow>
        let p_high_pa = p_high_psi * PSI_TO_PA;
            p_low_pa = p_low_psi * PSI_TO_PA;
            delta_p = p_high_pa - p_low_pa
        in
        if delta_p \<le> 0 then (Some PHighNotGreater, s)
        else if rho \<le> 0 then (Some DensityNotPositive, s)
        else
          let cda = mdot / sqrt (2 * rho * delta_p) in
          (None, s\<lparr>calculated_cda := Some cda, result_label := Some cda,
                   result_units := Some (cda * 1000000)\<rparr>))"

text \<open>\<open>_calculate_setpoint\<close>: four entries, two range checks, two labels.\<close>

definition calculate_setpoint :: "calculator \<Rightarrow> notice option \<times> calculator" where
  "calculate_setpoint s =
     (case setpoint_cda_var s of None \<Rightarrow> (Some NotNumeric, s) | Some cda \<Rightarrow>
      case setpoint_mdot_var s of None \<Rightarrow> (Some NotNumeric, s) | Some mdot \<Rightarrow>
      case setpoint_rho_var s of None \<Rightarrow> (Some NotNumeric, s) | Some rho \<Rightarrow>
      case manifold_p_var s of None \<Rightarrow> (Some NotNumeric, s) | Some manifold_p_psi \<Rightarrow>
        if cda \<le> 0 then (Some CdANotPositive, s)
        else if rho \<le> 0 then (Some DensityNotPositive, s)
        else
          let manifold_p_pa = manifold_p_psi * PSI_TO_PA;
              delta_p_pa = ((mdot / cda)\<^sup>2) / (2 * rho);
              p_set_pa = delta_p_pa + manifold_p_pa;
              p_set_psi = p_set_pa / PSI_TO_PA
          in (None, s\<lparr>setpoint_result_label := Some p_set_psi,
                       setpoint_result_pa := Some p_set_pa\<rparr>))"

section \<open>Venturi mass flow (VenturiMdotWindow)\<close>

text \<open>
  The window's variables, the launcher's table (\<open>ctx.df\<close>, \<open>ctx.time_col\<close>) and
  downsampling slider, and what it displays: the plotted series and the result label
  (overall average, which is NaN when no sample is positive, and maximum).
  \<open>apply_extra_data\<close> lives in the repository's \<open>utils\<close> module, which is not
  among the sources; its result, a boolean mask over the rows, is the field
  \<open>extra_data_mask\<close>.
\<close>

record 'c venturi =
  p1_col_var :: string
  p2_col_var :: string
  a1_var :: entry
  a2_var :: entry
  cd_var :: entry
  y_var :: entry
  venturi_rho_var :: entry
  ctx_df :: "string \<rightharpoonup> 'c list"
  ctx_time_col :: string
  extra_data_mask :: "bool list"
  downsampling_slider :: int
  plot_frame :: "('c list \<times> real list) option"
  venturi_result_label :: "(real option \<times> real) option"

text \<open>
  \<open>np.sqrt\<close> of a negative number is NaN (with a warning), and
  \<open>np.nan_to_num(mdot, nan=0.0)\<close> turns NaN into 0.
\<close>

definition np_sqrt :: "real option \<Rightarrow> real option" where
  "np_sqrt x = (case x of None \<Rightarrow> None | Some r \<Rightarrow> if r < 0 then None else Some (sqrt r))"

definition nan_to_num :: "real option \<Rightarrow> real" where
  "nan_to_num x = (case x of None \<Rightarrow> 0 | Some r \<Rightarrow> r)"

text \<open>
  The array arithmetic of \<open>_calculate_and_plot\<close> on one sample: pressures to
  pascals, their difference, \<open>np.maximum(delta_p, 0)\<close> (which keeps NaN), the venturi
  equation, and the replacement of NaN.
\<close>

definition venturi_sample ::
  "real \<Rightarrow> real \<Rightarrow> real \<Rightarrow> real \<Rightarrow> real \<Rightarrow> real option \<Rightarrow> real option \<Rightarrow> real" where
  "venturi_sample cd y rho a1 a2 p1_psi p2_psi =
     (let p1_pa = map_option (\<lambda>p. p * PSI_TO_PA) p1_psi;
          p2_pa = map_option (\<lambda>p. p * PSI_TO_PA) p2_psi;
          delta_p = (case (p1_pa, p2_pa) of (Some u, Some v) \<Rightarrow> Some (u - v) | _ \<Rightarrow> None);
          delta_p = map_option (\<lambda>d. max d 0) delta_p;
          beta_sq = (a2 / a1)\<^sup>2;
          denominator = 1 - beta_sq;
          mdot = map_option (\<lambda>r. cd * y * a2 * r)
                   (np_sqrt (map_option (\<lambda>d. 2 * rho * d / denominator) delta_p))
      in nan_to_num mdot)"

text \<open>\<open>np.nanmean(mdot[mdot > 0])\<close>: NaN on an empty selection.\<close>

definition nanmean_positive :: "real list \<Rightarrow> real option" where
  "nanmean_positive mdot =
     (let pos = filter (\<lambda>m. 0 < m) mdot
      in if pos = [] then None else Some (sum_list pos / real (length pos)))"

text \<open>The five \<open>float(...)\<close> conversions: any ValueError ends the calculation.\<close>

definition get_parameters :: "'c venturi \<Rightarrow> (real \<times> real \<times> real \<times> real \<times> real) option" where
  "get_parameters s =
     (case (a1_var s, a2_var s, cd_var s, y_var s, venturi_rho_var s) of
        (Some a1_in2, Some a2_in2, Some cd, Some y, Some rho) \<Rightarrow>
          Some (a1_in2, a2_in2, cd, y, rho)
      | _ \<Rightarrow> None)"

text \<open>
  The masked and strided columns. A column the table does not have is a KeyError, caught
  by the catch-all handler; a selected cell that \<open>astype(float)\<close> rejects is a
  ValueError.
\<close>

definition get_data ::
  "('c \<Rightarrow> real option option) \<Rightarrow> 'c venturi \<Rightarrow>
     notice + ('c list \<times> real option list \<times> real option list)" where
  "get_data astype_float s =
     (let msk = extra_data_mask s;
          ds = nat (max (downsampling_slider s) 1)
      in
      case ctx_df s (ctx_time_col s) of None \<Rightarrow> Inl CalculationFailed | Some tcol \<Rightarrow>
     (case ctx_df s (p1_col_var s) of None \<Rightarrow> Inl CalculationFailed | Some c1 \<Rightarrow>
     (case those (map astype_float (every_nth ds (select msk c1))) of
        None \<Rightarrow> Inl InvalidInputValue | Some p1_psi \<Rightarrow>
     (case ctx_df s (p2_col_var s) of None \<Rightarrow> Inl CalculationFailed | Some c2 \<Rightarrow>
     (case those (map astype_float (every_nth ds (select msk c2))) of
        None \<Rightarrow> Inl InvalidInputValue | Some p2_psi \<Rightarrow>
        Inr (every_nth ds (select msk tcol), p1_psi, p2_psi))))))"

text \<open>
  \<open>_calculate_and_plot\<close>. All checks come before the first write. With no sample
  selected the new (empty) plot is already in place when \<open>np.nanmax\<close> raises
  ValueError on the empty array.
\<close>

definition calculate_and_plot ::
  "('c \<Rightarrow> real option option) \<Rightarrow> 'c venturi \<Rightarrow> notice option \<times> 'c venturi" where
  "calculate_and_plot astype_float s =
     (if p1_col_var s = [] \<or> p2_col_var s = [] then (Some ColumnsNotSelected, s)
      else
      case get_parameters s of
        None \<Rightarrow> (Some InvalidInputValue, s)
      | Some (a1_in2, a2_in2, cd, y, rho) \<Rightarrow>
        if a1_in2 \<le> 0 \<or> a2_in2 \<le> 0 then (Some AreasNotPositive, s)
        else if a2_in2 \<ge> a1_in2 then (Some ThroatNotSmaller, s)
        else if cd \<le> 0 \<or> cd > 1 then (Some CdOutOfRange, s)
        else
          let a1 = a1_in2 * IN2_TO_M2;
              a2 = a2_in2 * IN2_TO_M2
          in
          (case get_data astype_float s of
             Inl err \<Rightarrow> (Some err, s)
           | Inr (time, p1_psi, p2_psi) \<Rightarrow>
               let mdot = map2 (venturi_sample cd y rho a1 a2) p1_psi p2_psi;
                   s1 = s\<lparr>plot_frame := Some (time, mdot)\<rparr>
               in
               if mdot = [] then (Some InvalidInputValue, s1)
               else (None, s1\<lparr>venturi_result_label :=
                                 Some (nanmean_positive mdot, fold max (tl mdot) (hd mdot))\<rparr>)))"

section \<open>Time-range selection window (CdAPlotWindow)\<close>

text \<open>
  The attributes of the window that the click handler, the plot preparation and the
  rate estimate read and write. \<open>has_ax2\<close> says whether the weight axes exist
  (\<open>self.ax2 is not None\<close>), \<open>confirm_enabled\<close> is the state of the confirm button.
  The window's three column names carry the prefix \<open>plot_\<close>, the calculator's record
  having fields of the same names. All columns of a table have the same number of rows.
\<close>

datatype axes = Ax1 | Ax2 | OtherAxes

record click_event =
  inaxes :: "axes option"
  xdata :: "real option"

record selector =
  start_time :: "real option"
  end_time :: "real option"
  click_count :: nat
  confirm_enabled :: bool
  has_ax2 :: bool

record 'c plot_window = selector +
  df :: "string \<rightharpoonup> 'c list"
  plot_time_col :: string
  plot_pressure_col :: string
  plot_weight_col :: string
  time_data_numeric :: "real option list option"

datatype plot_error = CouldNotParseTime | NoValidData | KeyError

type_synonym plot_data = "real option list \<times> real option list \<times> real option list option"

subsection \<open>The two-click protocol\<close>

definition in_plot_axes :: "'a selector_scheme \<Rightarrow> click_event \<Rightarrow> bool" where
  "in_plot_axes s e =
     (if has_ax2 s then inaxes e = Some Ax1 \<or> inaxes e = Some Ax2
      else inaxes e = Some Ax1)"

text \<open>
  \<open>_on_plot_click\<close>: a click outside the axes or without an x value is ignored. The
  counter is incremented first; at 1 the start is set and the end cleared, at 2 the end
  is set, the pair swapped when out of order, the button enabled and the counter reset.
  Any other counter value changes nothing but the counter. In the second branch
  \<open>self.start_time\<close> is compared as a float: were it \<open>None\<close>, Python would raise
  TypeError with the end already assigned and the counter already incremented.
\<close>

definition on_plot_click :: "'a selector_scheme \<Rightarrow> click_event \<Rightarrow> 'a selector_scheme" where
  "on_plot_click s e =
     (if \<not> in_plot_axes s e then s
      else case xdata e of
        None \<Rightarrow> s
      | Some x_click \<Rightarrow>
          let s1 = s\<lparr>click_count := click_count s + 1\<rparr> in
          if click_count s1 = 1 then
            s1\<lparr>start_time := Some x_click, end_time := None, confirm_enabled := False\<rparr>
          else if click_count s1 = 2 then
            (case start_time s1 of
               None \<Rightarrow> s1\<lparr>end_time := Some x_click\<rparr>
             | Some st \<Rightarrow>
                 (if x_click < st
                  then s1\<lparr>start_time := Some x_click, end_time := Some st,
                          confirm_enabled := True, click_count := 0\<rparr>
                  else s1\<lparr>end_time := Some x_click,
                          confirm_enabled := True, click_count := 0\<rparr>))
          else s1)"

definition reset_selection :: "'a selector_scheme \<Rightarrow> 'a selector_scheme" where
  "reset_selection s =
     s\<lparr>start_time := None, end_time := None, click_count := 0, confirm_enabled := False\<rparr>"

datatype selector_action = Click click_event | Reset

fun selector_step :: "'a selector_scheme \<Rightarrow> selector_action \<Rightarrow> 'a selector_scheme" where
  "selector_step s (Click e) = on_plot_click s e"
| "selector_step s Reset = reset_selection s"

subsection \<open>Time column parsing\<close>

text \<open>
  \<open>time_dt.min()\<close> skips NaT, and is NaT when every entry is;
  \<open>(time_dt - time_dt.min()).dt.total_seconds()\<close> is then NaN throughout.
\<close>

definition series_min :: "real option list \<Rightarrow> real option" where
  "series_min xs =
     (case [v. Some v \<leftarrow> xs] of [] \<Rightarrow> None | v # vs \<Rightarrow> Some (fold min vs v))"

definition seconds_from_min :: "real option list \<Rightarrow> real option list" where
  "seconds_from_min time_dt =
     (case series_min time_dt of
        None \<Rightarrow> map (\<lambda>d. None) time_dt
      | Some m \<Rightarrow> map (map_option (\<lambda>d. d - m)) time_dt)"

text \<open>
  \<open>CdACalculatorWindow._get_numeric_time_data\<close>, on the time column
  \<open>self.df[self.time_col]\<close>: \<open>None\<close> is its return value \<open>None\<close>, which the
  callers report as "Could not parse time data." An exception inside
  \<open>pd.to_datetime\<close> has the same outcome as a column of which no entry parses.
\<close>

definition get_numeric_time_data ::
  "('c \<Rightarrow> real option) \<Rightarrow> ('c \<Rightarrow> real option) \<Rightarrow> 'c list \<Rightarrow> real option list option" where
  "get_numeric_time_data to_numeric to_datetime time_col_data =
     (let time_numeric = map to_numeric time_col_data in
      if isna_all time_numeric then
        (let time_dt = map to_datetime time_col_data in
         if isna_all time_dt then None
         else Some (seconds_from_min time_dt))
      else Some time_numeric)"

subsection \<open>Plot data and decimation\<close>

text \<open>
  \<open>_prepare_plot_data\<close> repeats the time parsing inline and raises ValueError where
  the calculator's function returns \<open>None\<close>. The full time array is stored in
  \<open>time_data_numeric\<close> before the rows with a NaN are dropped for plotting. The
  window is returned with the outcome because the store happens before two of the
  errors.
\<close>

definition prepare_plot_data ::
  "('c \<Rightarrow> real option) \<Rightarrow> ('c \<Rightarrow> real option) \<Rightarrow> ('c, 'a) plot_window_scheme \<Rightarrow>
     ('c, 'a) plot_window_scheme \<times> (plot_error + plot_data)" where
  "prepare_plot_data to_numeric to_datetime w =
     (case df w (plot_time_col w) of None \<Rightarrow> (w, Inl KeyError) | Some time_col_data \<Rightarrow>
      let time_numeric = map to_numeric time_col_data;
          parsed =
            (if isna_all time_numeric then
               (let time_dt = map to_datetime time_col_data in
                if isna_all time_dt then None else Some (seconds_from_min time_dt))
             else Some time_numeric)
      in
      (case parsed of None \<Rightarrow> (w, Inl CouldNotParseTime) | Some time_data \<Rightarrow>
      (case df w (plot_pressure_col w) of None \<Rightarrow> (w, Inl KeyError) | Some pcol \<Rightarrow>
        let pressure_data = map to_numeric pcol;
            w1 = w\<lparr>time_data_numeric := Some time_data\<rparr>;
            valid_mask = map2 both_valid time_data pressure_data;
            time_data = select valid_mask time_data;
            pressure_data = select valid_mask pressure_data
        in
        if length time_data = 0 then (w1, Inl NoValidData)
        else if plot_weight_col w = [] then (w1, Inr (time_data, pressure_data, None))
        else
          (case df w (plot_weight_col w) of None \<Rightarrow> (w1, Inl KeyError) | Some wcol \<Rightarrow>
             (w1, Inr (time_data, pressure_data,
                       Some (select valid_mask (map to_numeric wcol))))))))"

text \<open>
  \<open>_create_plot\<close>, with the class constant as a parameter: the three series handed to
  matplotlib, and the window with its weight axes recorded. On an error the window
  shows the message and closes.
\<close>

definition create_plot_with ::
  "nat \<Rightarrow> ('c \<Rightarrow> real option) \<Rightarrow> ('c \<Rightarrow> real option) \<Rightarrow> ('c, 'a) plot_window_scheme \<Rightarrow>
     ('c, 'a) plot_window_scheme \<times> (plot_error + plot_data)" where
  "create_plot_with max_plot_points to_numeric to_datetime w =
     (case prepare_plot_data to_numeric to_datetime w of
        (w1, Inl e) \<Rightarrow> (w1, Inl e)
      | (w1, Inr (time_data, pressure_data, weight_data)) \<Rightarrow>
          let n_points = length time_data;
              w2 = w1\<lparr>has_ax2 := (plot_weight_col w1 \<noteq> [] \<and> weight_data \<noteq> None)\<rparr>
          in
          if n_points > max_plot_points then
            let step = max 1 (n_points div max_plot_points) in
            (w2, Inr (every_nth step time_data, every_nth step pressure_data,
                      map_option (every_nth step) weight_data))
          else (w2, Inr (time_data, pressure_data, weight_data)))"

definition create_plot ::
  "('c \<Rightarrow> real option) \<Rightarrow> ('c \<Rightarrow> real option) \<Rightarrow> ('c, 'a) plot_window_scheme \<Rightarrow>
     ('c, 'a) plot_window_scheme \<times> (plot_error + plot_data)" where
  "create_plot = create_plot_with MAX_PLOT_POINTS"

subsection \<open>Derived rate\<close>

text \<open>
  \<open>np.polyfit(x, y, 1)\<close> is a call into numpy. It is represented by the closed form
  of the least-squares line, the solution of the normal equations; that this line
  minimises the sum of squared residuals, and is the only one that does, is proved
  below. When all the \<open>x\<close> are equal the normal equations are singular: numpy then
  warns (RankWarning) and returns a minimum-norm solution picked by a floating-point
  rank cutoff, or raises LinAlgError, which \<open>_calculate_mdot\<close> turns into \<open>None\<close>.
  That case is the outcome \<open>None\<close> here and \<open>RankDeficient\<close> in the estimate: it is
  kept apart and nothing is claimed about it.
\<close>

definition polyfit1 :: "real list \<Rightarrow> real list \<Rightarrow> (real \<times> real) option" where
  "polyfit1 x y =
     (let n = real (length x);
          sx = sum_list x;
          sy = sum_list y;
          sxx = sum_list (map (\<lambda>t. t * t) x);
          sxy = sum_list (map2 (\<lambda>t w. t * w) x y);
          d = n * sxx - sx * sx
      in if d = 0 then None
         else
           let slope = (n * sxy - sx * sy) / d;
               intercept = (sy - slope * sx) / n
           in Some (slope, intercept))"

datatype mdot = NoMdot | Mdot real | RankDeficient

text \<open>\<open>(time_data >= start) & (time_data <= end)\<close>: false on NaN.\<close>

definition in_window :: "real \<Rightarrow> real \<Rightarrow> real option \<Rightarrow> bool" where
  "in_window a b t = (case t of None \<Rightarrow> False | Some t \<Rightarrow> a \<le> t \<and> t \<le> b)"

text \<open>
  \<open>_calculate_mdot\<close>. \<open>NoMdot\<close> is the return value \<open>None\<close>, also where the
  handler catches an exception: a weight column the table does not have (KeyError), a
  weight array whose length differs from the mask's (IndexError). After the NaN filter
  every entry of the two slices is a number, which \<open>map the\<close> reads.
\<close>

definition calculate_mdot :: "('c \<Rightarrow> real option) \<Rightarrow> ('c, 'a) plot_window_scheme \<Rightarrow> mdot" where
  "calculate_mdot to_numeric w =
     (case (start_time w, end_time w) of
        (Some a, Some b) \<Rightarrow>
          if plot_weight_col w = [] then NoMdot
          else
            (case time_data_numeric w of None \<Rightarrow> NoMdot | Some time_data \<Rightarrow>
            (case df w (plot_weight_col w) of None \<Rightarrow> NoMdot | Some wcol \<Rightarrow>
              let weight_data = map to_numeric wcol;
                  msk = map (in_window a b) time_data
              in
              if \<not> list_ex (\<lambda>m. m) msk \<or> length (filter (\<lambda>m. m) msk) < 2 then NoMdot
              else if length weight_data \<noteq> length time_data then NoMdot
              else
                let t_slice = select msk time_data;
                    w_slice = select msk weight_data;
                    valid = map2 both_valid t_slice w_slice;
                    t_slice = select valid t_slice;
                    w_slice = select valid w_slice
                in
                if length t_slice < 2 then NoMdot
                else
                  (case polyfit1 (map the t_slice) (map the w_slice) of
                     None \<Rightarrow> RankDeficient
                   | Some (slope, intercept) \<Rightarrow>
                       let mdot_lbs = - slope;
                           mdot_kg = mdot_lbs * LBS_TO_KG
                       in Mdot mdot_kg)))
      | _ \<Rightarrow> NoMdot)"

section \<open>Notions used in the statements\<close>

subsection \<open>Auto-detection\<close>

text \<open>
  The three name tests, and the candidates the if/elif chain leaves for each category:
  a pressure candidate is not a time match, a weight candidate is neither a time nor a
  pressure match.
\<close>

definition is_time :: "string \<Rightarrow> bool" where
  "is_time col = (sublist ''time'' (lower col) \<or> lower col = ''t'')"

definition is_pressure :: "string \<Rightarrow> bool" where
  "is_pressure col = (sublist ''pressure'' (lower col) \<or> sublist ''press'' (lower col))"

definition is_weight :: "string \<Rightarrow> bool" where
  "is_weight col = (sublist ''weight'' (lower col) \<or> sublist ''mass'' (lower col))"

definition pressure_candidate :: "string \<Rightarrow> bool" where
  "pressure_candidate col = (\<not> is_time col \<and> is_pressure col)"

definition weight_candidate :: "string \<Rightarrow> bool" where
  "weight_candidate col = (\<not> is_time col \<and> \<not> is_pressure col \<and> is_weight col)"

subsection \<open>Selection\<close>

definition window_ordered :: "'a selector_scheme \<Rightarrow> bool" where
  "window_ordered s =
     (case (start_time s, end_time s) of
        (Some a, Some b) \<Rightarrow> a \<le> b
      | _ \<Rightarrow> True)"

definition selector_inv :: "'a selector_scheme \<Rightarrow> bool" where
  "selector_inv s =
     (window_ordered s \<and> click_count s \<le> 1 \<and>
      (click_count s = 1 \<longrightarrow> start_time s \<noteq> None))"

subsection \<open>Invalid inputs of the three calculations\<close>




subsection \<open>Time parsing\<close>

text \<open>
  The earliest parsed timestamp of a column, and the reading of "elapsed seconds from
  the first timestamp": the first entry that parses is the origin.
\<close>

definition earliest :: "real option list \<Rightarrow> real" where
  "earliest time_dt = Min (set [v. Some v \<leftarrow> time_dt])"

definition seconds_from_first :: "real option list \<Rightarrow> real option list" where
  "seconds_from_first time_dt =
     (case [v. Some v \<leftarrow> time_dt] of
        [] \<Rightarrow> map (\<lambda>d. None) time_dt
      | first # rest \<Rightarrow> map (map_option (\<lambda>d. d - first)) time_dt)"

subsection \<open>Least squares\<close>

text \<open>
  The samples of a window: the pairs (time, weight) of the rows whose time and weight
  are both numbers and whose time lies in the closed interval. The sum of squared
  residuals of a line over them, the sums of the normal equations, and the
  least-squares slope and intercept.
\<close>

definition valid_samples ::
  "real \<Rightarrow> real \<Rightarrow> real option list \<Rightarrow> real option list \<Rightarrow> (real \<times> real) list" where
  "valid_samples a b time_data weight_data =
     [(t, w). (Some t, Some w) \<leftarrow> zip time_data weight_data, a \<le> t \<and> t \<le> b]"

definition sse :: "(real \<times> real) list \<Rightarrow> real \<Rightarrow> real \<Rightarrow> real" where
  "sse ps a b = (\<Sum>(t, w)\<leftarrow>ps. (w - (a * t + b))\<^sup>2)"

definition sum_t :: "(real \<times> real) list \<Rightarrow> real" where
  "sum_t ps = (\<Sum>(t, w)\<leftarrow>ps. t)"

definition sum_w :: "(real \<times> real) list \<Rightarrow> real" where
  "sum_w ps = (\<Sum>(t, w)\<leftarrow>ps. w)"

definition sum_tt :: "(real \<times> real) list \<Rightarrow> real" where
  "sum_tt ps = (\<Sum>(t, w)\<leftarrow>ps. t * t)"

definition sum_tw :: "(real \<times> real) list \<Rightarrow> real" where
  "sum_tw ps = (\<Sum>(t, w)\<leftarrow>ps. t * w)"

definition sum_ww :: "(real \<times> real) list \<Rightarrow> real" where
  "sum_ww ps = (\<Sum>(t, w)\<leftarrow>ps. w * w)"

definition fit_det :: "(real \<times> real) list \<Rightarrow> real" where
  "fit_det ps = real (length ps) * sum_tt ps - sum_t ps * sum_t ps"

definition ls_slope :: "(real \<times> real) list \<Rightarrow> real" where
  "ls_slope ps = (real (length ps) * sum_tw ps - sum_t ps * sum_w ps) / fit_det ps"

definition ls_intercept :: "(real \<times> real) list \<Rightarrow> real" where
  "ls_intercept ps = (sum_w ps - ls_slope ps * sum_t ps) / real (length ps)"

section \<open>Example inputs\<close>

definition no_selection :: column_selection where
  "no_selection =
     \<lparr>time_combo = [], pressure_combo = [], weight_combo = [],
      time_col = None, pressure_col = None, weight_col = None\<rparr>"

definition new_selector :: "bool \<Rightarrow> selector" where
  "new_selector ax2 =
     \<lparr>start_time = None, end_time = None, click_count = 0,
      confirm_enabled = False, has_ax2 = ax2\<rparr>"

definition plot_click :: "real \<Rightarrow> click_event" where
  "plot_click x = \<lparr>inaxes = Some Ax1, xdata = Some x\<rparr>"

text \<open>The calculator as \<open>__init__\<close> and \<open>_build_ui\<close> leave it.\<close>

definition new_calculator :: calculator where
  "new_calculator =
     \<lparr>p_high_var = None, p_low_var = None, rho_var = Some 1000,
      calculated_mdot = None, calculated_cda = None,
      result_label = None, result_units = None,
      setpoint_cda_var = None, setpoint_mdot_var = None,
      setpoint_rho_var = Some 1000, manifold_p_var = Some 500,
      setpoint_result_label = None, setpoint_result_pa = None\<rparr>"

text \<open>The specification's CdA example: 500 PSI, 14.7 PSI, 1000 kg/m3, 0.5 kg/s.\<close>

definition cda_example :: calculator where
  "cda_example =
     new_calculator\<lparr>p_high_var := Some 500, p_low_var := Some 14.7,
       rho_var := Some 1000, calculated_mdot := Some (1 / 2)\<rparr>"

definition setpoint_example :: calculator where
  "setpoint_example =
     new_calculator\<lparr>setpoint_cda_var := Some (1 / 5000), setpoint_mdot_var := Some (1 / 2),
       setpoint_rho_var := Some 1000, manifold_p_var := Some 50\<rparr>"

text \<open>
  The specification's venturi example as the first sample of a four-row table, of which
  the mask keeps three rows and the slider every second one.
\<close>

definition venturi_example :: "cell venturi" where
  "venturi_example =
     \<lparr>p1_col_var = ''P1'', p2_col_var = ''P2'',
      a1_var = Some 0.5, a2_var = Some 0.25, cd_var = Some 0.98, y_var = Some 1,
      venturi_rho_var = Some 1141,
      ctx_df = [''t'' \<mapsto> [Number 0, Number 1, Number 2, Number 3],
                ''P1'' \<mapsto> [Number 100, Number 90, Number 70, Number 60],
                ''P2'' \<mapsto> [Number 80, Number 85, Number 75, Number 60]],
      ctx_time_col = ''t'',
      extra_data_mask = [True, True, True, False],
      downsampling_slider = 2,
      plot_frame = None, venturi_result_label = None\<rparr>"


definition mdot_example :: "cell plot_window" where
  "mdot_example =
     \<lparr>start_time = Some 1, end_time = Some 3, click_count = 0,
      confirm_enabled = True, has_ax2 = True,
      df = [''t'' \<mapsto> [Number 0, Number 1, Number 2, Number 3, Number 4],
            ''p'' \<mapsto> [Number 500, Number 500, Number 500, Number 500, Number 500],
            ''w'' \<mapsto> [Number 10, Number 8, Text, Number 4, Number 2]],
      plot_time_col = ''t'', plot_pressure_col = ''p'', plot_weight_col = ''w'',
      time_data_numeric = Some [Some 0, Some 1, Some 2, Some 3, Some 4]\<rparr>"

text \<open>A table of 3999 rows, all numeric, with no weight column selected.\<close>

definition table_3999 :: "cell plot_window" where
  "table_3999 =
     \<lparr>start_time = None, end_time = None, click_count = 0,
      confirm_enabled = False, has_ax2 = False,
      df = [''t'' \<mapsto> map (\<lambda>i. Number (real i)) [0..<3999],
            ''p'' \<mapsto> replicate 3999 (Number 500)],
      plot_time_col = ''t'', plot_pressure_col = ''p'', plot_weight_col = [],
      time_data_numeric = None\<rparr>"


section \<open>Properties of the two-click selection\<close>

lemma on_plot_click_inv: "selector_inv s \<Longrightarrow> selector_inv (on_plot_click s e)"
  by (auto simp: selector_inv_def window_ordered_def on_plot_click_def Let_def
      split: option.splits)

lemma reset_selection_inv: "selector_inv (reset_selection s)"
  by (simp add: selector_inv_def window_ordered_def reset_selection_def)

lemma selector_run_inv: "selector_inv s \<Longrightarrow> selector_inv (foldl selector_step s as)"
proof (induction as arbitrary: s)
  case Nil
  then show ?case by simp
next
  case (Cons a as)
  have "selector_inv (selector_step s a)"
    using Cons.prems by (cases a) (simp_all add: on_plot_click_inv reset_selection_inv)
  then show ?case using Cons.IH by simp
qed

lemma selector_reachable_ordered:
  "window_ordered (foldl selector_step (new_selector ax2) as)"
proof -
  have "selector_inv (new_selector ax2)"
    by (simp add: selector_inv_def window_ordered_def new_selector_def)
  then have "selector_inv (foldl selector_step (new_selector ax2) as)"
    by (rule selector_run_inv)
  then show ?thesis by (simp add: selector_inv_def)
qed

text \<open>
  C4. Two clicks at x1 and then x2, delivered inside the axes to a window whose click
  counter is 0 (a new window, after a reset, or after a completed pair), leave the
  window (min x1 x2, max x1 x2): start \<open>\<le>\<close> end, the two values swapped when the
  second is less than the first, the confirm button enabled and the counter back at 0.
\<close>

theorem on_plot_click_two_clicks:
  assumes "click_count s = 0"
  shows "let s2 = on_plot_click (on_plot_click s (plot_click x1)) (plot_click x2) in
           start_time s2 = Some (min x1 x2) \<and> end_time s2 = Some (max x1 x2) \<and>
           window_ordered s2 \<and> confirm_enabled s2 \<and> click_count s2 = 0 \<and>
           (x2 < x1 \<longrightarrow> start_time s2 = Some x2 \<and> end_time s2 = Some x1)"
  using assms
  by (auto simp: on_plot_click_def plot_click_def in_plot_axes_def window_ordered_def Let_def)

theorem on_plot_click_two_clicks_witness:
  "click_count (new_selector True) = 0 \<and>
   start_time (on_plot_click (on_plot_click (new_selector True) (plot_click 7)) (plot_click 3))
     = Some 3 \<and>
   end_time (on_plot_click (on_plot_click (new_selector True) (plot_click 7)) (plot_click 3))
     = Some 7"
proof -
  have h: "click_count (new_selector True) = 0" by (simp add: new_selector_def)
  show ?thesis
    using h on_plot_click_two_clicks [OF h, of 7 3] by (simp add: Let_def)
qed

section \<open>Properties of the auto-detection\<close>

lemma is_pressure_nonempty: "is_pressure col \<Longrightarrow> col \<noteq> []"
  by (auto simp: is_pressure_def lower_def)

lemma is_weight_nonempty: "is_weight col \<Longrightarrow> col \<noteq> []"
  by (auto simp: is_weight_def lower_def)

lemma autodetect_step_cases:
  "autodetect_step s col =
     (if is_time col then s\<lparr>time_combo := col, time_col := Some col\<rparr>
      else if pressure_candidate col \<and> pressure_combo s = []
        then s\<lparr>pressure_combo := col, pressure_col := Some col\<rparr>
      else if weight_candidate col \<and> weight_combo s = []
        then s\<lparr>weight_combo := col, weight_col := Some col\<rparr>
      else s)"
  by (simp add: autodetect_step_def is_time_def is_pressure_def is_weight_def
      pressure_candidate_def weight_candidate_def Let_def)

lemma autodetect_time:
  "time_combo (autodetect_columns s cols) =
     (case find is_time (rev cols) of None \<Rightarrow> time_combo s | Some c \<Rightarrow> c) \<and>
   time_col (autodetect_columns s cols) =
     (case find is_time (rev cols) of None \<Rightarrow> time_col s | Some c \<Rightarrow> Some c)"
proof (induction cols arbitrary: s rule: rev_induct)
  case Nil
  then show ?case by (simp add: autodetect_columns_def)
next
  case (snoc c cols)
  show ?case
    using snoc.IH [of s]
    by (simp add: autodetect_columns_def autodetect_step_cases)
qed

lemma autodetect_step_pressure:
  "pressure_combo (autodetect_step s c) =
     (if pressure_combo s = [] \<and> pressure_candidate c then c else pressure_combo s) \<and>
   pressure_col (autodetect_step s c) =
     (if pressure_combo s = [] \<and> pressure_candidate c then Some c else pressure_col s)"
  by (simp add: autodetect_step_cases pressure_candidate_def weight_candidate_def)

lemma autodetect_step_weight:
  "weight_combo (autodetect_step s c) =
     (if weight_combo s = [] \<and> weight_candidate c then c else weight_combo s) \<and>
   weight_col (autodetect_step s c) =
     (if weight_combo s = [] \<and> weight_candidate c then Some c else weight_col s)"
  by (simp add: autodetect_step_cases pressure_candidate_def weight_candidate_def)

lemma autodetect_pressure:
  "pressure_combo (autodetect_columns s cols) =
     (if pressure_combo s \<noteq> [] then pressure_combo s
      else case find pressure_candidate cols of None \<Rightarrow> [] | Some c \<Rightarrow> c) \<and>
   pressure_col (autodetect_columns s cols) =
     (if pressure_combo s \<noteq> [] then pressure_col s
      else case find pressure_candidate cols of None \<Rightarrow> pressure_col s | Some c \<Rightarrow> Some c)"
proof (induction cols arbitrary: s)
  case Nil
  then show ?case by (simp add: autodetect_columns_def)
next
  case (Cons c cols)
  have ne: "pressure_candidate c \<Longrightarrow> c \<noteq> []"
    by (simp add: pressure_candidate_def is_pressure_nonempty)
  show ?case
    using Cons.IH [of "autodetect_step s c"] ne
    by (cases "pressure_combo s = [] \<and> pressure_candidate c")
       (auto simp: autodetect_columns_def autodetect_step_pressure split: option.splits)
qed

lemma autodetect_weight:
  "weight_combo (autodetect_columns s cols) =
     (if weight_combo s \<noteq> [] then weight_combo s
      else case find weight_candidate cols of None \<Rightarrow> [] | Some c \<Rightarrow> c) \<and>
   weight_col (autodetect_columns s cols) =
     (if weight_combo s \<noteq> [] then weight_col s
      else case find weight_candidate cols of None \<Rightarrow> weight_col s | Some c \<Rightarrow> Some c)"
proof (induction cols arbitrary: s)
  case Nil
  then show ?case by (simp add: autodetect_columns_def)
next
  case (Cons c cols)
  have ne: "weight_candidate c \<Longrightarrow> c \<noteq> []"
    by (simp add: weight_candidate_def is_weight_nonempty)
  show ?case
    using Cons.IH [of "autodetect_step s c"] ne
    by (cases "weight_combo s = [] \<and> weight_candidate c")
       (auto simp: autodetect_columns_def autodetect_step_weight split: option.splits)
qed

text \<open>
  C6, as amended. The time selection is the last column of the sequence that matches
  time (every match overwrites it). The pressure selection, when the pressure combobox
  is empty before the run, is the first column that matches pressure and does not match
  time; the weight selection, when the weight combobox is empty, is the first column
  that matches weight and matches neither time nor pressure. A combobox that is not
  empty keeps its value.
\<close>

theorem autodetect_columns_result:
  "time_combo (autodetect_columns s cols) =
     (case find is_time (rev cols) of None \<Rightarrow> time_combo s | Some c \<Rightarrow> c) \<and>
   pressure_combo (autodetect_columns s cols) =
     (if pressure_combo s \<noteq> [] then pressure_combo s
      else case find pressure_candidate cols of None \<Rightarrow> [] | Some c \<Rightarrow> c) \<and>
   weight_combo (autodetect_columns s cols) =
     (if weight_combo s \<noteq> [] then weight_combo s
      else case find weight_candidate cols of None \<Rightarrow> [] | Some c \<Rightarrow> c) \<and>
   time_col (autodetect_columns s cols) =
     (case find is_time (rev cols) of None \<Rightarrow> time_col s | Some c \<Rightarrow> Some c) \<and>
   pressure_col (autodetect_columns s cols) =
     (if pressure_combo s \<noteq> [] then pressure_col s
      else case find pressure_candidate cols of None \<Rightarrow> pressure_col s | Some c \<Rightarrow> Some c) \<and>
   weight_col (autodetect_columns s cols) =
     (if weight_combo s \<noteq> [] then weight_col s
      else case find weight_candidate cols of None \<Rightarrow> weight_col s | Some c \<Rightarrow> Some c)"
  using autodetect_time [of s cols] autodetect_pressure [of s cols] autodetect_weight [of s cols]
  by simp

theorem autodetect_columns_result_witness:
  "autodetect_columns no_selection
     [''Time (s)'', ''Tank Pressure'', ''Line Pressure'', ''Tank Mass'', ''Elapsed Time'']
   = \<lparr>time_combo = ''Elapsed Time'', pressure_combo = ''Tank Pressure'',
      weight_combo = ''Tank Mass'', time_col = Some ''Elapsed Time'',
      pressure_col = Some ''Tank Pressure'', weight_col = Some ''Tank Mass''\<rparr>"
proof -
  let ?cols = "[''Time (s)'', ''Tank Pressure'', ''Line Pressure'', ''Tank Mass'', ''Elapsed Time'']"
  have t: "find is_time (rev ?cols) = Some ''Elapsed Time''" by code_simp
  have p: "find pressure_candidate ?cols = Some ''Tank Pressure''" by code_simp
  have w: "find weight_candidate ?cols = Some ''Tank Mass''" by code_simp
  show ?thesis
    using autodetect_columns_result [of no_selection ?cols] t p w
    by (simp add: no_selection_def column_selection.equality)
qed

text \<open>
  C6 as written fails: the first column whose name contains "press" is
  \<open>Pressure_Time\<close>, but it is taken for time, and the pressure selection is the later
  \<open>Tank_Pressure\<close>.
\<close>

theorem autodetect_first_pressure_match_counterexample:
  "find is_pressure [''Pressure_Time'', ''Tank_Pressure''] = Some ''Pressure_Time'' \<and>
   pressure_combo (autodetect_columns no_selection [''Pressure_Time'', ''Tank_Pressure''])
     = ''Tank_Pressure''"
  by code_simp

text \<open>
  C10. A column that matches time is taken for time only: the step sets the time
  selection and leaves the pressure and weight selections as they were, whatever else
  the name contains. Over a whole sequence, a pressure or weight selection that the
  run changed is a column of the sequence that does not match time.
\<close>

theorem autodetect_time_exclusive:
  "(is_time col \<longrightarrow>
      autodetect_step s col = s\<lparr>time_combo := col, time_col := Some col\<rparr>) \<and>
   (pressure_combo (autodetect_columns s cols) \<noteq> pressure_combo s \<longrightarrow>
      pressure_combo (autodetect_columns s cols) \<in> set cols \<and>
      \<not> is_time (pressure_combo (autodetect_columns s cols))) \<and>
   (weight_combo (autodetect_columns s cols) \<noteq> weight_combo s \<longrightarrow>
      weight_combo (autodetect_columns s cols) \<in> set cols \<and>
      \<not> is_time (weight_combo (autodetect_columns s cols)))"
proof (intro conjI impI)
  assume "is_time col"
  then show "autodetect_step s col = s\<lparr>time_combo := col, time_col := Some col\<rparr>"
    by (simp add: autodetect_step_cases)
next
  assume ch: "pressure_combo (autodetect_columns s cols) \<noteq> pressure_combo s"
  then obtain c where c: "find pressure_candidate cols = Some c"
      "pressure_combo (autodetect_columns s cols) = c"
    using autodetect_pressure [of s cols] by (auto split: if_splits option.splits)
  from c(1) have "c \<in> set cols \<and> pressure_candidate c"
    by (auto simp: find_Some_iff)
  then show "pressure_combo (autodetect_columns s cols) \<in> set cols"
    and "\<not> is_time (pressure_combo (autodetect_columns s cols))"
    using c(2) by (simp_all add: pressure_candidate_def)
next
  assume ch: "weight_combo (autodetect_columns s cols) \<noteq> weight_combo s"
  then obtain c where c: "find weight_candidate cols = Some c"
      "weight_combo (autodetect_columns s cols) = c"
    using autodetect_weight [of s cols] by (auto split: if_splits option.splits)
  from c(1) have "c \<in> set cols \<and> weight_candidate c"
    by (auto simp: find_Some_iff)
  then show "weight_combo (autodetect_columns s cols) \<in> set cols"
    and "\<not> is_time (weight_combo (autodetect_columns s cols))"
    using c(2) by (simp_all add: weight_candidate_def)
qed

theorem autodetect_time_exclusive_witness:
  "is_time ''Pressure_Time'' \<and> is_pressure ''Pressure_Time'' \<and>
   autodetect_step no_selection ''Pressure_Time''
     = no_selection\<lparr>time_combo := ''Pressure_Time'', time_col := Some ''Pressure_Time''\<rparr> \<and>
   pressure_combo (autodetect_columns no_selection [''Mass_Time'', ''Press'']) = ''Press''"
proof -
  have t: "is_time ''Pressure_Time''" by code_simp
  have p: "is_pressure ''Pressure_Time''" by code_simp
  have r: "pressure_combo (autodetect_columns no_selection [''Mass_Time'', ''Press'']) = ''Press''"
    by code_simp
  show ?thesis
    using t p r
      autodetect_time_exclusive [where col = "''Pressure_Time''" and s = no_selection
        and cols = "[''Mass_Time'', ''Press'']"]
    by simp
qed

section \<open>Properties of the CdA and set-pressure calculations\<close>

lemma psi_le_iff: "ph * PSI_TO_PA \<le> pl * PSI_TO_PA \<longleftrightarrow> ph \<le> pl"
  by (simp add: PSI_TO_PA_def)

lemma psi_diff: "ph * PSI_TO_PA - pl * PSI_TO_PA = (ph - pl) * 6894.76"
  by (simp add: PSI_TO_PA_def algebra_simps)

lemma calculate_cda_ok:
  assumes "p_high_var s = Some ph" "p_low_var s = Some pl" "rho_var s = Some rho"
    "calculated_mdot s = Some mdot" "pl < ph" "0 < rho"
  shows "calculate_cda s =
     (None, s\<lparr>calculated_cda := Some (mdot / sqrt (2 * rho * ((ph - pl) * 6894.76))),
        result_label := Some (mdot / sqrt (2 * rho * ((ph - pl) * 6894.76))),
        result_units := Some (mdot / sqrt (2 * rho * ((ph - pl) * 6894.76)) * 1000000)\<rparr>)"
  using assms
  by (simp add: calculate_cda_def Let_def psi_le_iff del: diff_le_0_iff_le)
     (simp add: psi_diff)

lemma calculate_cda_domain:
  assumes "p_high_var s = Some ph" "p_low_var s = Some pl" "rho_var s = Some rho"
    "calculated_mdot s = Some mdot" "ph \<le> pl \<or> rho \<le> 0"
  shows "calculate_cda s = (Some (if ph \<le> pl then PHighNotGreater else DensityNotPositive), s)"
  using assms by (auto simp: calculate_cda_def Let_def psi_le_iff)

lemma example_value_bounds:
  "6.112 / 10 ^ 6 < (1/2) / sqrt (2 * 1000 * ((500 - 14.7) * 6894.76)) \<and>
   (1/2) / sqrt (2 * 1000 * ((500 - 14.7) * 6894.76)) < 6.113 / (10 ^ 6 :: real)"
proof -
  let ?x = "2 * 1000 * ((500 - 14.7) * 6894.76) :: real"
  have lo: "81800 < sqrt ?x" by (rule real_less_rsqrt) simp
  have hi: "sqrt ?x < 81806" by (rule real_less_lsqrt) simp_all
  have pos: "0 < sqrt ?x" using lo by linarith
  have a: "6.112 / 10 ^ 6 < (1/2) / sqrt ?x"
    using hi pos by (simp add: field_simps)
  have b: "(1/2) / sqrt ?x < 6.113 / 10 ^ 6"
    using lo pos by (simp add: field_simps)
  show ?thesis using a b by blast
qed

lemma calculate_cda_value:
  assumes "p_high_var s = Some ph" "p_low_var s = Some pl" "rho_var s = Some rho"
    "calculated_mdot s = Some mdot" "pl < ph" "0 < rho"
  shows "fst (calculate_cda s) = None"
    and "calculated_cda (snd (calculate_cda s)) = Some (mdot / sqrt (2 * rho * ((ph - pl) * 6894.76)))"
    and "result_label (snd (calculate_cda s)) = Some (mdot / sqrt (2 * rho * ((ph - pl) * 6894.76)))"
  using calculate_cda_ok [OF assms] by simp_all

lemma cda_example_fields:
  "p_high_var cda_example = Some 500" "p_low_var cda_example = Some 14.7"
  "rho_var cda_example = Some 1000" "calculated_mdot cda_example = Some (1/2)"
  by (simp_all add: cda_example_def new_calculator_def)

lemma cda_example_result:
  "calculated_cda (snd (calculate_cda cda_example)) =
     Some ((1/2) / sqrt (2 * 1000 * ((500 - 14.7) * 6894.76)))"
proof -
  have "(14.7::real) < 500" "(0::real) < 1000" by simp_all
  from calculate_cda_value(2) [OF cda_example_fields this]
  show ?thesis .
qed

text \<open>
  C2, as amended. With numeric entries and a stored mass flow: when P_high > P_low and
  the density is positive, the calculation stores and displays
  mdot / sqrt (2 rho dP) with dP = (P_high - P_low) * 6894.76; when P_high \<open>\<le>\<close> P_low
  or the density is not positive it reports the violated constraint and changes
  nothing. For 500 PSI, 14.7 PSI, 1000 kg/m3 and 0.5 kg/s the result lies between
  6.112e-6 and 6.113e-6 square metres.
\<close>

theorem calculate_cda_formula:
  assumes "p_high_var s = Some ph" "p_low_var s = Some pl" "rho_var s = Some rho"
    "calculated_mdot s = Some mdot"
  shows "(pl < ph \<and> 0 < rho \<longrightarrow>
           calculate_cda s =
             (None, s\<lparr>calculated_cda := Some (mdot / sqrt (2 * rho * ((ph - pl) * 6894.76))),
                result_label := Some (mdot / sqrt (2 * rho * ((ph - pl) * 6894.76))),
                result_units := Some (mdot / sqrt (2 * rho * ((ph - pl) * 6894.76)) * 1000000)\<rparr>)) \<and>
         (ph \<le> pl \<or> rho \<le> 0 \<longrightarrow>
           calculate_cda s =
             (Some (if ph \<le> pl then PHighNotGreater else DensityNotPositive), s)) \<and>
         calculated_cda (snd (calculate_cda cda_example)) =
           Some ((1/2) / sqrt (2 * 1000 * ((500 - 14.7) * 6894.76))) \<and>
         6.112 / 10 ^ 6 < (1/2) / sqrt (2 * 1000 * ((500 - 14.7) * 6894.76)) \<and>
         (1/2) / sqrt (2 * 1000 * ((500 - 14.7) * 6894.76)) < 6.113 / (10 ^ 6 :: real)"
proof (intro conjI impI)
  assume "pl < ph \<and> 0 < rho"
  then have "pl < ph" "0 < rho" by blast+
  then show "calculate_cda s =
             (None, s\<lparr>calculated_cda := Some (mdot / sqrt (2 * rho * ((ph - pl) * 6894.76))),
                result_label := Some (mdot / sqrt (2 * rho * ((ph - pl) * 6894.76))),
                result_units := Some (mdot / sqrt (2 * rho * ((ph - pl) * 6894.76)) * 1000000)\<rparr>)"
    by (rule calculate_cda_ok [OF assms])
next
  assume "ph \<le> pl \<or> rho \<le> 0"
  then show "calculate_cda s =
             (Some (if ph \<le> pl then PHighNotGreater else DensityNotPositive), s)"
    by (rule calculate_cda_domain [OF assms])
next
  show "calculated_cda (snd (calculate_cda cda_example)) =
           Some ((1/2) / sqrt (2 * 1000 * ((500 - 14.7) * 6894.76)))"
    by (rule cda_example_result)
next
  show "6.112 / 10 ^ 6 < (1/2) / sqrt (2 * 1000 * ((500 - 14.7) * 6894.76))"
    using example_value_bounds by (rule conjunct1)
next
  show "(1/2) / sqrt (2 * 1000 * ((500 - 14.7) * 6894.76)) < 6.113 / (10 ^ 6 :: real)"
    using example_value_bounds by (rule conjunct2)
qed

theorem calculate_cda_formula_witness:
  "calculate_cda cda_example =
     (None, cda_example\<lparr>
        calculated_cda := Some ((1/2) / sqrt (2 * 1000 * ((500 - 14.7) * 6894.76))),
        result_label := Some ((1/2) / sqrt (2 * 1000 * ((500 - 14.7) * 6894.76))),
        result_units := Some ((1/2) / sqrt (2 * 1000 * ((500 - 14.7) * 6894.76)) * 1000000)\<rparr>) \<and>
   calculate_cda (cda_example\<lparr>p_low_var := Some 500\<rparr>) =
     (Some PHighNotGreater, cda_example\<lparr>p_low_var := Some 500\<rparr>)"
proof -
  have b: "p_high_var (cda_example\<lparr>p_low_var := Some 500\<rparr>) = Some 500"
    "p_low_var (cda_example\<lparr>p_low_var := Some 500\<rparr>) = Some 500"
    "rho_var (cda_example\<lparr>p_low_var := Some 500\<rparr>) = Some 1000"
    "calculated_mdot (cda_example\<lparr>p_low_var := Some 500\<rparr>) = Some (1/2)"
    by (simp_all add: cda_example_def new_calculator_def)
  have c: "(14.7::real) < 500 \<and> (0::real) < 1000" by simp
  have d: "(500::real) \<le> 500 \<or> (1000::real) \<le> 0" by simp
  have e: "(if (500::real) \<le> 500 then PHighNotGreater else DensityNotPositive) = PHighNotGreater"
    by simp
  from calculate_cda_formula [OF cda_example_fields]
  have 1: "calculate_cda cda_example =
     (None, cda_example\<lparr>
        calculated_cda := Some ((1/2) / sqrt (2 * 1000 * ((500 - 14.7) * 6894.76))),
        result_label := Some ((1/2) / sqrt (2 * 1000 * ((500 - 14.7) * 6894.76))),
        result_units := Some ((1/2) / sqrt (2 * 1000 * ((500 - 14.7) * 6894.76)) * 1000000)\<rparr>)"
    using c by blast
  from calculate_cda_formula [OF b]
  have "calculate_cda (cda_example\<lparr>p_low_var := Some 500\<rparr>) =
     (Some (if (500::real) \<le> 500 then PHighNotGreater else DensityNotPositive),
      cda_example\<lparr>p_low_var := Some 500\<rparr>)"
    using d by blast
  then have 2: "calculate_cda (cda_example\<lparr>p_low_var := Some 500\<rparr>) =
     (Some PHighNotGreater, cda_example\<lparr>p_low_var := Some 500\<rparr>)"
    by (simp only: e)
  show ?thesis using 1 2 by (rule conjI)
qed

text \<open>
  C2 as written fails on its example: the value computed for 500 PSI, 14.7 PSI,
  1000 kg/m3 and 0.5 kg/s is less than a thirtieth of 1.934e-4 (which is
  0.5 / sqrt (2 dP), the density left out).
\<close>

theorem calculate_cda_example_counterexample:
  "calculated_cda (snd (calculate_cda cda_example)) =
     Some ((1/2) / sqrt (2 * 1000 * ((500 - 14.7) * 6894.76))) \<and>
   (1/2) / sqrt (2 * 1000 * ((500 - 14.7) * 6894.76)) < 1.934 / 10 ^ 4 / (30 :: real)"
proof -
  have "(1/2) / sqrt (2 * 1000 * ((500 - 14.7) * 6894.76)) < 6.113 / (10 ^ 6 :: real)"
    using example_value_bounds by (rule conjunct2)
  moreover have "6.113 / (10 ^ 6 :: real) < 1.934 / 10 ^ 4 / 30" by simp
  ultimately have "(1/2) / sqrt (2 * 1000 * ((500 - 14.7) * 6894.76)) < 1.934 / 10 ^ 4 / (30 :: real)"
    by (rule less_trans)
  with cda_example_result show ?thesis by (rule conjI)
qed

lemma calculate_setpoint_ok:
  assumes "setpoint_cda_var s = Some cda" "setpoint_mdot_var s = Some mdot"
    "setpoint_rho_var s = Some rho" "manifold_p_var s = Some man" "0 < cda" "0 < rho"
  shows "calculate_setpoint s =
     (None, s\<lparr>setpoint_result_label :=
                 Some ((((mdot / cda)\<^sup>2) / (2 * rho) + man * PSI_TO_PA) / PSI_TO_PA),
               setpoint_result_pa := Some (((mdot / cda)\<^sup>2) / (2 * rho) + man * PSI_TO_PA)\<rparr>)"
  using assms by (simp add: calculate_setpoint_def Let_def)

lemma setpoint_back_cda:
  assumes "0 < cda" "0 < rho" "mdot \<noteq> 0"
    "p_high_var b = Some ((((mdot / cda)\<^sup>2) / (2 * rho) + man * PSI_TO_PA) / PSI_TO_PA)"
    "p_low_var b = Some man" "rho_var b = Some rho" "calculated_mdot b = Some mdot"
  shows "calculated_cda (snd (calculate_cda b)) =
           Some (mdot / sqrt (2 * rho * (((mdot / cda)\<^sup>2) / (2 * rho))))"
proof -
  define dp where "dp = ((mdot / cda)\<^sup>2) / (2 * rho)"
  define ph where "ph = (dp + man * PSI_TO_PA) / PSI_TO_PA"
  have K: "0 < PSI_TO_PA" by (simp add: PSI_TO_PA_def)
  have "0 < (mdot / cda)\<^sup>2" using assms(1,3) by simp
  then have dp: "0 < dp" using assms(2) by (simp add: dp_def)
  have "ph = dp / PSI_TO_PA + man" using K by (simp add: ph_def field_simps)
  then have d1: "ph - man = dp / PSI_TO_PA" by simp
  have "0 < dp / PSI_TO_PA" using dp K by simp
  then have lt: "man < ph" using d1 by linarith
  have "(ph - man) * 6894.76 = (ph - man) * PSI_TO_PA" by (simp add: PSI_TO_PA_def)
  also have "\<dots> = dp" using K by (simp add: d1)
  finally have e: "(ph - man) * 6894.76 = dp" .
  have "calculate_cda b =
     (None, b\<lparr>calculated_cda := Some (mdot / sqrt (2 * rho * ((ph - man) * 6894.76))),
        result_label := Some (mdot / sqrt (2 * rho * ((ph - man) * 6894.76))),
        result_units := Some (mdot / sqrt (2 * rho * ((ph - man) * 6894.76)) * 1000000)\<rparr>)"
    using assms(4-7) lt assms(2)
    by (intro calculate_cda_ok) (simp_all add: ph_def dp_def)
  then have "calculated_cda (snd (calculate_cda b)) =
      Some (mdot / sqrt (2 * rho * ((ph - man) * 6894.76)))" by simp
  then show ?thesis by (simp only: e) (simp only: dp_def)
qed

lemma cda_recovered:
  assumes "0 < cda" "0 < rho" "0 < (mdot::real)"
  shows "mdot / sqrt (2 * rho * (((mdot / cda)\<^sup>2) / (2 * rho))) = cda"
proof -
  have "2 * rho * (((mdot / cda)\<^sup>2) / (2 * rho)) = (mdot / cda)\<^sup>2"
    using assms(2) by simp
  moreover have "sqrt ((mdot / cda)\<^sup>2) = mdot / cda"
    using assms(1,3) by simp
  ultimately show ?thesis using assms(1,3) by simp
qed

text \<open>
  C3. For CdA > 0 and density > 0, any target mass flow and manifold pressure: the set
  pressure computed is ((mdot / CdA)^2 / (2 rho) + P_manifold * 6894.76) / 6894.76 PSI;
  subtracting the manifold pressure from it, in pascals, gives back the pressure drop
  (mdot / CdA)^2 / (2 rho) exactly; and the CdA calculation fed with the set pressure
  as P_high and the manifold pressure as P_low works on that same pressure drop
  (for a mass flow other than 0, where its P_high > P_low check passes), returning the
  original CdA when the mass flow is positive.
\<close>

theorem setpoint_round_trip:
  assumes "setpoint_cda_var s = Some cda" "setpoint_mdot_var s = Some mdot"
    "setpoint_rho_var s = Some rho" "manifold_p_var s = Some man" "0 < cda" "0 < rho"
  shows "let delta_p = ((mdot / cda)\<^sup>2) / (2 * rho);
             p_set_pa = delta_p + man * PSI_TO_PA;
             p_set_psi = p_set_pa / PSI_TO_PA;
             fed = s\<lparr>p_high_var := Some p_set_psi, p_low_var := Some man,
                      rho_var := Some rho, calculated_mdot := Some mdot\<rparr>
         in calculate_setpoint s =
              (None, s\<lparr>setpoint_result_label := Some p_set_psi,
                        setpoint_result_pa := Some p_set_pa\<rparr>) \<and>
            p_set_pa - man * PSI_TO_PA = delta_p \<and>
            p_set_psi * PSI_TO_PA - man * PSI_TO_PA = delta_p \<and>
            (mdot \<noteq> 0 \<longrightarrow>
               calculated_cda (snd (calculate_cda fed)) =
                 Some (mdot / sqrt (2 * rho * delta_p))) \<and>
            (0 < mdot \<longrightarrow> calculated_cda (snd (calculate_cda fed)) = Some cda)"
proof -
  define delta_p where "delta_p = ((mdot / cda)\<^sup>2) / (2 * rho)"
  define p_set_pa where "p_set_pa = delta_p + man * PSI_TO_PA"
  define p_set_psi where "p_set_psi = p_set_pa / PSI_TO_PA"
  define fed where "fed = s\<lparr>p_high_var := Some p_set_psi, p_low_var := Some man,
                      rho_var := Some rho, calculated_mdot := Some mdot\<rparr>"
  have K: "PSI_TO_PA \<noteq> 0" by (simp add: PSI_TO_PA_def)
  have 1: "calculate_setpoint s =
              (None, s\<lparr>setpoint_result_label := Some p_set_psi,
                        setpoint_result_pa := Some p_set_pa\<rparr>)"
    using assms by (simp add: calculate_setpoint_ok p_set_psi_def p_set_pa_def delta_p_def)
  have 2: "p_set_pa - man * PSI_TO_PA = delta_p" by (simp add: p_set_pa_def)
  have 3: "p_set_psi * PSI_TO_PA - man * PSI_TO_PA = delta_p"
    using K by (simp add: p_set_psi_def p_set_pa_def)
  have 4: "calculated_cda (snd (calculate_cda fed)) = Some (mdot / sqrt (2 * rho * delta_p))"
    if "mdot \<noteq> 0"
    unfolding delta_p_def
    by (rule setpoint_back_cda [OF assms(5,6) that, where man = man])
       (simp_all add: fed_def p_set_psi_def p_set_pa_def delta_p_def)
  have 5: "calculated_cda (snd (calculate_cda fed)) = Some cda" if "0 < mdot"
    using 4 that cda_recovered [OF assms(5,6) that] by (simp add: delta_p_def)
  from 4 have i4: "mdot \<noteq> 0 \<longrightarrow>
      calculated_cda (snd (calculate_cda fed)) = Some (mdot / sqrt (2 * rho * delta_p))"
    by (rule impI)
  from 5 have i5: "0 < mdot \<longrightarrow> calculated_cda (snd (calculate_cda fed)) = Some cda"
    by (rule impI)
  have "calculate_setpoint s =
              (None, s\<lparr>setpoint_result_label := Some p_set_psi,
                        setpoint_result_pa := Some p_set_pa\<rparr>) \<and>
            p_set_pa - man * PSI_TO_PA = delta_p \<and>
            p_set_psi * PSI_TO_PA - man * PSI_TO_PA = delta_p \<and>
            (mdot \<noteq> 0 \<longrightarrow>
               calculated_cda (snd (calculate_cda fed)) =
                 Some (mdot / sqrt (2 * rho * delta_p))) \<and>
            (0 < mdot \<longrightarrow> calculated_cda (snd (calculate_cda fed)) = Some cda)"
    by (intro conjI 1 2 3 i4 i5)
  then show ?thesis
    unfolding Let_def fed_def p_set_psi_def p_set_pa_def delta_p_def .
qed

theorem setpoint_round_trip_witness:
  "calculate_setpoint setpoint_example =
     (None, setpoint_example\<lparr>setpoint_result_label := Some (347863 / 6894.76),
                               setpoint_result_pa := Some 347863\<rparr>) \<and>
   (347863 / 6894.76) * PSI_TO_PA - 50 * PSI_TO_PA = (3125 :: real)"
proof -
  have f: "setpoint_cda_var setpoint_example = Some (1 / 5000)"
    "setpoint_mdot_var setpoint_example = Some (1 / 2)"
    "setpoint_rho_var setpoint_example = Some 1000"
    "manifold_p_var setpoint_example = Some 50"
    by (simp_all add: setpoint_example_def new_calculator_def)
  have p: "(0::real) < 1 / 5000" "(0::real) < 1000" by simp_all
  have v: "((1 / 2 / (1 / 5000))\<^sup>2 / (2 * 1000) + 50 * PSI_TO_PA) = (347863 :: real)"
    by (simp add: PSI_TO_PA_def power2_eq_square)
  have r: "calculate_setpoint setpoint_example =
      (None, setpoint_example\<lparr>
         setpoint_result_label :=
           Some (((1 / 2 / (1 / 5000))\<^sup>2 / (2 * 1000) + 50 * PSI_TO_PA) / PSI_TO_PA),
         setpoint_result_pa := Some ((1 / 2 / (1 / 5000))\<^sup>2 / (2 * 1000) + 50 * PSI_TO_PA)\<rparr>)"
    using setpoint_round_trip [OF f p] unfolding Let_def by (rule conjunct1)
  have k: "PSI_TO_PA = 6894.76" by (rule PSI_TO_PA_def)
  from r have 1: "calculate_setpoint setpoint_example =
     (None, setpoint_example\<lparr>setpoint_result_label := Some (347863 / 6894.76),
                               setpoint_result_pa := Some 347863\<rparr>)"
    unfolding v by (simp only: k)
  have 2: "(347863 / 6894.76) * PSI_TO_PA - 50 * PSI_TO_PA = (3125 :: real)"
    by (simp add: PSI_TO_PA_def)
  show ?thesis using 1 2 by (rule conjI)
qed

section \<open>Properties of the venturi calculation\<close>

lemma venturi_sample_formula:
  assumes "0 < a2_in2" "a2_in2 < a1_in2"
  shows "venturi_sample cd y rho (a1_in2 * IN2_TO_M2) (a2_in2 * IN2_TO_M2) (Some p1) (Some p2) =
     (if p1 < p2 then 0
      else if rho < 0 \<and> p2 < p1 then 0
      else cd * y * (a2_in2 * 0.00064516) *
           sqrt (2 * rho * ((p1 - p2) * 6894.76) / (1 - (a2_in2 / a1_in2)\<^sup>2)))"
proof -
  define den where "den = 1 - (a2_in2 / a1_in2)\<^sup>2"
  define dp where "dp = max (p1 * PSI_TO_PA - p2 * PSI_TO_PA) 0"
  define X where "X = 2 * rho * dp / den"
  define k where "k = cd * y * (a2_in2 * IN2_TO_M2)"
  have b: "(a2_in2 * IN2_TO_M2 / (a1_in2 * IN2_TO_M2)) = a2_in2 / a1_in2"
    by (simp add: IN2_TO_M2_def)
  have "(a2_in2 / a1_in2)\<^sup>2 < 1"
    using assms by (simp add: power2_eq_square field_simps mult_strict_mono)
  then have d: "0 < den" by (simp add: den_def)
  have unf: "venturi_sample cd y rho (a1_in2 * IN2_TO_M2) (a2_in2 * IN2_TO_M2) (Some p1) (Some p2)
      = nan_to_num (map_option (\<lambda>r. k * r) (np_sqrt (Some X)))"
    by (simp add: venturi_sample_def Let_def b X_def dp_def den_def k_def)
  have kk: "k = cd * y * (a2_in2 * 0.00064516)" by (simp add: k_def IN2_TO_M2_def)
  show ?thesis
  proof (cases "p1 < p2")
    case True
    then have "p1 * PSI_TO_PA - p2 * PSI_TO_PA < 0" by (simp add: PSI_TO_PA_def)
    then have "dp = 0" by (simp add: dp_def max_def)
    then have "X = 0" by (simp add: X_def)
    then show ?thesis using True
      by (simp add: unf np_sqrt_def nan_to_num_def)
  next
    case False
    then have "0 \<le> p1 * PSI_TO_PA - p2 * PSI_TO_PA" by (simp add: PSI_TO_PA_def)
    then have "dp = p1 * PSI_TO_PA - p2 * PSI_TO_PA" by (simp add: dp_def max_def)
    also have "\<dots> = (p1 - p2) * 6894.76" by (rule psi_diff)
    finally have m: "dp = (p1 - p2) * 6894.76" .
    have X: "X = 2 * rho * ((p1 - p2) * 6894.76) / (1 - (a2_in2 / a1_in2)\<^sup>2)"
      by (simp only: X_def m den_def)
    show ?thesis
    proof (cases "rho < 0 \<and> p2 < p1")
      case True
      then have "0 < dp" by (simp add: m)
      then have "2 * rho * dp < 0" using True by (simp add: mult_less_0_iff)
      then have "X < 0" unfolding X_def using d by (rule divide_neg_pos)
      then show ?thesis using True False
        by (simp add: unf np_sqrt_def nan_to_num_def)
    next
      case F2: False
      have "0 \<le> dp" by (simp add: dp_def)
      have "0 \<le> 2 * rho * dp"
      proof (cases "0 \<le> rho")
        case True
        then show ?thesis using \<open>0 \<le> dp\<close> by (simp add: zero_le_mult_iff)
      next
        case False
        then have "p1 = p2" using F2 \<open>\<not> p1 < p2\<close> by auto
        then show ?thesis by (simp add: m)
      qed
      then have "0 \<le> X" unfolding X_def using d by (simp add: zero_le_divide_iff del: mult_nonneg_nonneg)
      then have "\<not> X < 0" by simp
      then have "nan_to_num (map_option (\<lambda>r. k * r) (np_sqrt (Some X))) = k * sqrt X"
        by (simp add: np_sqrt_def nan_to_num_def)
      then show ?thesis using F2 False
        by (simp only: unf X kk if_False)
    qed
  qed
qed

lemma venturi_sample_missing:
  "venturi_sample cd y rho a1 a2 None p2 = 0" "venturi_sample cd y rho a1 a2 p1 None = 0"
  by (simp_all add: venturi_sample_def Let_def np_sqrt_def nan_to_num_def split: option.splits)

lemma get_parameters_Some:
  "a1_var s = Some a1 \<Longrightarrow> a2_var s = Some a2 \<Longrightarrow> cd_var s = Some cd \<Longrightarrow>
   y_var s = Some y \<Longrightarrow> venturi_rho_var s = Some rho \<Longrightarrow>
   get_parameters s = Some (a1, a2, cd, y, rho)"
  by (simp add: get_parameters_def)


lemma calculate_and_plot_invalid:
  assumes "get_parameters s = Some (a1, a2, cd, y, rho)"
    "p1_col_var s \<noteq> []" "p2_col_var s \<noteq> []"
    "\<not> (0 < a2 \<and> a2 < a1) \<or> \<not> (0 < cd \<and> cd \<le> 1)"
  shows "calculate_and_plot astype_float s =
     (Some (if a1 \<le> 0 \<or> a2 \<le> 0 then AreasNotPositive
            else if a1 \<le> a2 then ThroatNotSmaller else CdOutOfRange), s)"
  using assms by (auto simp: calculate_and_plot_def)

lemma calculate_and_plot_valid:
  assumes "get_parameters s = Some (a1, a2, cd, y, rho)"
    "p1_col_var s \<noteq> []" "p2_col_var s \<noteq> []"
    "0 < a2" "a2 < a1" "0 < cd" "cd \<le> 1"
    "get_data astype_float s = Inr (time, p1_psi, p2_psi)"
  shows "plot_frame (snd (calculate_and_plot astype_float s)) =
           Some (time, map2 (venturi_sample cd y rho (a1 * IN2_TO_M2) (a2 * IN2_TO_M2))
                         p1_psi p2_psi)"
    and "p1_psi \<noteq> [] \<and> p2_psi \<noteq> [] \<longrightarrow> fst (calculate_and_plot astype_float s) = None"
  using assms by (auto simp: calculate_and_plot_def Let_def)

lemma venturi_example_data:
  "get_data cell_astype_float venturi_example =
     Inr ([Number 0, Number 2], [Some 100, Some 70], [Some 80, Some 75])"
  by (simp add: get_data_def venturi_example_def select_def Let_def)

text \<open>
  C5. With both pressure columns selected and numeric entries: when 0 < A2 < A1 and
  0 < Cd \<open>\<le>\<close> 1, the plotted series is the per-sample mass flow of the selected rows,
  and for a sample with both pressures present it is 0 when P1 < P2 (the negative
  pressure difference clamped) and otherwise
  Cd Y (A2 * 0.00064516) sqrt (2 rho ((P1 - P2) * 6894.76) / (1 - (A2 / A1)^2)),
  where that square root exists; for a negative density and P1 > P2 the root is NaN
  and the sample is 0, as is a sample with a missing pressure. When 0 < A2 < A1 or
  0 < Cd \<open>\<le>\<close> 1 is violated the calculation reports the constraint and changes
  nothing.
\<close>

theorem venturi_mass_flow:
  assumes "p1_col_var s \<noteq> []" "p2_col_var s \<noteq> []"
    "a1_var s = Some a1" "a2_var s = Some a2" "cd_var s = Some cd"
    "y_var s = Some y" "venturi_rho_var s = Some rho"
  shows "(0 < a2 \<and> a2 < a1 \<and> 0 < cd \<and> cd \<le> 1 \<longrightarrow>
           (\<forall>time p1_psi p2_psi.
              get_data astype_float s = Inr (time, p1_psi, p2_psi) \<longrightarrow>
              plot_frame (snd (calculate_and_plot astype_float s)) =
                Some (time, map2 (venturi_sample cd y rho (a1 * IN2_TO_M2) (a2 * IN2_TO_M2))
                              p1_psi p2_psi)) \<and>
           (\<forall>p1 p2.
              venturi_sample cd y rho (a1 * IN2_TO_M2) (a2 * IN2_TO_M2) (Some p1) (Some p2) =
                (if p1 < p2 then 0
                 else if rho < 0 \<and> p2 < p1 then 0
                 else cd * y * (a2 * 0.00064516) *
                      sqrt (2 * rho * ((p1 - p2) * 6894.76) / (1 - (a2 / a1)\<^sup>2)))) \<and>
           (\<forall>p. venturi_sample cd y rho (a1 * IN2_TO_M2) (a2 * IN2_TO_M2) None p = 0 \<and>
                venturi_sample cd y rho (a1 * IN2_TO_M2) (a2 * IN2_TO_M2) p None = 0)) \<and>
         (\<not> (0 < a2 \<and> a2 < a1) \<or> \<not> (0 < cd \<and> cd \<le> 1) \<longrightarrow>
           calculate_and_plot astype_float s =
             (Some (if a1 \<le> 0 \<or> a2 \<le> 0 then AreasNotPositive
                    else if a1 \<le> a2 then ThroatNotSmaller else CdOutOfRange), s))"
proof -
  have gp: "get_parameters s = Some (a1, a2, cd, y, rho)"
    using assms(3-7) by (rule get_parameters_Some)
  show ?thesis
  proof (intro conjI impI allI)
    fix time p1_psi p2_psi
    assume "0 < a2 \<and> a2 < a1 \<and> 0 < cd \<and> cd \<le> 1"
      and "get_data astype_float s = Inr (time, p1_psi, p2_psi)"
    then show "plot_frame (snd (calculate_and_plot astype_float s)) =
                Some (time, map2 (venturi_sample cd y rho (a1 * IN2_TO_M2) (a2 * IN2_TO_M2))
                              p1_psi p2_psi)"
      using calculate_and_plot_valid(1) [OF gp assms(1,2)] by blast
  next
    fix p1 p2
    assume "0 < a2 \<and> a2 < a1 \<and> 0 < cd \<and> cd \<le> 1"
    then have "0 < a2" "a2 < a1" by blast+
    then show "venturi_sample cd y rho (a1 * IN2_TO_M2) (a2 * IN2_TO_M2) (Some p1) (Some p2) =
                (if p1 < p2 then 0
                 else if rho < 0 \<and> p2 < p1 then 0
                 else cd * y * (a2 * 0.00064516) *
                      sqrt (2 * rho * ((p1 - p2) * 6894.76) / (1 - (a2 / a1)\<^sup>2)))"
      by (rule venturi_sample_formula)
  next
    fix p
    show "venturi_sample cd y rho (a1 * IN2_TO_M2) (a2 * IN2_TO_M2) None p = 0"
      by (rule venturi_sample_missing)
    show "venturi_sample cd y rho (a1 * IN2_TO_M2) (a2 * IN2_TO_M2) p None = 0"
      by (rule venturi_sample_missing)
  next
    assume "\<not> (0 < a2 \<and> a2 < a1) \<or> \<not> (0 < cd \<and> cd \<le> 1)"
    then show "calculate_and_plot astype_float s =
             (Some (if a1 \<le> 0 \<or> a2 \<le> 0 then AreasNotPositive
                    else if a1 \<le> a2 then ThroatNotSmaller else CdOutOfRange), s)"
      by (rule calculate_and_plot_invalid [OF gp assms(1,2)])
  qed
qed

theorem venturi_mass_flow_witness:
  "plot_frame (snd (calculate_and_plot cell_astype_float venturi_example)) =
     Some ([Number 0, Number 2],
           [0.98 * 1 * (0.25 * 0.00064516) *
              sqrt (2 * 1141 * ((100 - 80) * 6894.76) / (1 - (0.25 / 0.5)\<^sup>2)),
            0])"
proof -
  have f: "p1_col_var venturi_example \<noteq> []" "p2_col_var venturi_example \<noteq> []"
    "a1_var venturi_example = Some 0.5" "a2_var venturi_example = Some 0.25"
    "cd_var venturi_example = Some 0.98" "y_var venturi_example = Some 1"
    "venturi_rho_var venturi_example = Some 1141"
    by (simp_all add: venturi_example_def)
  have ok: "(0::real) < 0.25 \<and> (0.25::real) < 0.5 \<and> (0::real) < 0.98 \<and> (0.98::real) \<le> 1"
    by simp
  note th = venturi_mass_flow [OF f, of cell_astype_float]
  from th ok have plot:
    "plot_frame (snd (calculate_and_plot cell_astype_float venturi_example)) =
       Some ([Number 0, Number 2],
             map2 (venturi_sample 0.98 1 1141 (0.5 * IN2_TO_M2) (0.25 * IN2_TO_M2))
               [Some 100, Some 70] [Some 80, Some 75])"
    using venturi_example_data by blast
  from th ok have sample: "\<And>p1 p2.
     venturi_sample 0.98 1 1141 (0.5 * IN2_TO_M2) (0.25 * IN2_TO_M2) (Some p1) (Some p2) =
       (if p1 < p2 then 0
        else if (1141::real) < 0 \<and> p2 < p1 then 0
        else 0.98 * 1 * (0.25 * 0.00064516) *
             sqrt (2 * 1141 * ((p1 - p2) * 6894.76) / (1 - (0.25 / 0.5)\<^sup>2)))"
    by blast
  have c1: "\<not> ((100::real) < 80)" "\<not> ((1141::real) < 0 \<and> (80::real) < 100)" by simp_all
  have c2: "(70::real) < 75" by simp
  have s1: "venturi_sample 0.98 1 1141 (0.5 * IN2_TO_M2) (0.25 * IN2_TO_M2) (Some 100) (Some 80)
      = 0.98 * 1 * (0.25 * 0.00064516) *
             sqrt (2 * 1141 * ((100 - 80) * 6894.76) / (1 - (0.25 / 0.5)\<^sup>2))"
    unfolding sample [of 100 80] using c1 by (simp only: if_False)
  have s2: "venturi_sample 0.98 1 1141 (0.5 * IN2_TO_M2) (0.25 * IN2_TO_M2) (Some 70) (Some 75)
      = 0"
    unfolding sample [of 70 75] using c2 by (simp only: if_True)
  have m: "map2 (venturi_sample 0.98 1 1141 (0.5 * IN2_TO_M2) (0.25 * IN2_TO_M2))
               [Some 100, Some 70] [Some 80, Some 75] =
           [venturi_sample 0.98 1 1141 (0.5 * IN2_TO_M2) (0.25 * IN2_TO_M2) (Some 100) (Some 80),
            venturi_sample 0.98 1 1141 (0.5 * IN2_TO_M2) (0.25 * IN2_TO_M2) (Some 70) (Some 75)]"
    by (simp only: zip_Cons_Cons zip_Nil list.map prod.case)
  show ?thesis unfolding plot m s1 s2 ..
qed





section \<open>Error atomicity\<close>











section \<open>The least-squares line\<close>

lemma sums_Nil [simp]: "sum_t [] = 0" "sum_w [] = 0" "sum_tt [] = 0" "sum_tw [] = 0" "sum_ww [] = 0"
  by (simp_all add: sum_t_def sum_w_def sum_tt_def sum_tw_def sum_ww_def)

lemma sums_Cons [simp]:
  "sum_t ((t, w) # ps) = t + sum_t ps" "sum_w ((t, w) # ps) = w + sum_w ps"
  "sum_tt ((t, w) # ps) = t * t + sum_tt ps" "sum_tw ((t, w) # ps) = t * w + sum_tw ps"
  "sum_ww ((t, w) # ps) = w * w + sum_ww ps"
  by (simp_all add: sum_t_def sum_w_def sum_tt_def sum_tw_def sum_ww_def)

lemma sse_expand:
  "sse ps a b = sum_ww ps - 2 * a * sum_tw ps - 2 * b * sum_w ps + a * a * sum_tt ps + 2 * a * b * sum_t ps
     + real (length ps) * b * b"
proof (induction ps)
  case Nil
  then show ?case by (simp add: sse_def)
next
  case (Cons p ps)
  obtain t w where p: "p = (t, w)" by (cases p)
  have "sse (p # ps) a b = (w - (a * t + b))\<^sup>2 + sse ps a b"
    by (simp add: sse_def p)
  also have "\<dots> = (w - (a * t + b))\<^sup>2 +
      (sum_ww ps - 2 * a * sum_tw ps - 2 * b * sum_w ps + a * a * sum_tt ps + 2 * a * b * sum_t ps
        + real (length ps) * b * b)"
    by (simp only: Cons.IH)
  also have "\<dots> = sum_ww (p # ps) - 2 * a * sum_tw (p # ps) - 2 * b * sum_w (p # ps)
      + a * a * sum_tt (p # ps) + 2 * a * b * sum_t (p # ps) + real (length (p # ps)) * b * b"
    by (simp add: p power2_eq_square algebra_simps)
  finally show ?case .
qed

lemma sse_nonneg: "0 \<le> sse ps a b"
  unfolding sse_def by (rule sum_list_nonneg) auto

lemma sum_sq_centered:
  "(\<Sum>(t, w)\<leftarrow>ps. (t - m)\<^sup>2) = sum_tt ps - 2 * m * sum_t ps + real (length ps) * m * m"
proof (induction ps)
  case Nil
  then show ?case by simp
next
  case (Cons p ps)
  obtain t w where p: "p = (t, w)" by (cases p)
  have "(\<Sum>(t, w)\<leftarrow>p # ps. (t - m)\<^sup>2) = (t - m)\<^sup>2 + (\<Sum>(t, w)\<leftarrow>ps. (t - m)\<^sup>2)"
    by (simp add: p)
  also have "\<dots> = (t - m)\<^sup>2 + (sum_tt ps - 2 * m * sum_t ps + real (length ps) * m * m)"
    by (simp only: Cons.IH)
  also have "\<dots> = sum_tt (p # ps) - 2 * m * sum_t (p # ps) + real (length (p # ps)) * m * m"
    by (simp add: p power2_eq_square algebra_simps)
  finally show ?case .
qed

lemma sum_sq_zero:
  "(\<Sum>(t, w)\<leftarrow>ps. (t - m)\<^sup>2) = 0 \<Longrightarrow> \<forall>p\<in>set ps. fst p = (m::real)"
proof (induction ps)
  case Nil
  then show ?case by simp
next
  case (Cons p ps)
  obtain t w where p: "p = (t, w)" by (cases p)
  have nn: "0 \<le> (\<Sum>(t, w)\<leftarrow>ps. (t - m)\<^sup>2)"
    by (rule sum_list_nonneg) auto
  have s: "(t - m)\<^sup>2 + (\<Sum>(t, w)\<leftarrow>ps. (t - m)\<^sup>2) = 0"
    using Cons.prems by (simp add: p)
  have "0 \<le> (t - m)\<^sup>2" by simp
  with s nn have a: "(t - m)\<^sup>2 = 0" and b: "(\<Sum>(t, w)\<leftarrow>ps. (t - m)\<^sup>2) = 0"
    by linarith+
  from a have "t = m" by simp
  with Cons.IH [OF b] show ?case by (simp add: p)
qed

lemma fit_det_pos:
  assumes "\<exists>p\<in>set ps. \<exists>q\<in>set ps. fst p \<noteq> fst q"
  shows "0 < fit_det ps"
proof -
  define n where "n = real (length ps)"
  define m where "m = sum_t ps / n"
  have "ps \<noteq> []" using assms by auto
  then have n: "0 < n" by (simp add: n_def)
  have e: "(\<Sum>(t, w)\<leftarrow>ps. (t - m)\<^sup>2) = sum_tt ps - 2 * m * sum_t ps + n * m * m"
    by (simp add: sum_sq_centered n_def)
  have "n * (sum_tt ps - 2 * m * sum_t ps + n * m * m) = fit_det ps"
    using n by (simp add: m_def fit_det_def n_def [symmetric] field_simps)
  then have d: "fit_det ps = n * (\<Sum>(t, w)\<leftarrow>ps. (t - m)\<^sup>2)" by (simp add: e)
  have nn: "0 \<le> (\<Sum>(t, w)\<leftarrow>ps. (t - m)\<^sup>2)"
    by (rule sum_list_nonneg) auto
  have "(\<Sum>(t, w)\<leftarrow>ps. (t - m)\<^sup>2) \<noteq> 0"
  proof
    assume "(\<Sum>(t, w)\<leftarrow>ps. (t - m)\<^sup>2) = 0"
    then have "\<forall>p\<in>set ps. fst p = m" by (rule sum_sq_zero)
    with assms show False by auto
  qed
  with nn have "0 < (\<Sum>(t, w)\<leftarrow>ps. (t - m)\<^sup>2)" by linarith
  with n show ?thesis by (simp add: d)
qed

lemma polyfit1_sums:
  "polyfit1 (map fst ps) (map snd ps) =
     (if fit_det ps = 0 then None
      else Some ((real (length ps) * sum_tw ps - sum_t ps * sum_w ps) / fit_det ps,
                 (sum_w ps - (real (length ps) * sum_tw ps - sum_t ps * sum_w ps) / fit_det ps * sum_t ps)
                   / real (length ps)))"
proof -
  have 1: "sum_list (map fst ps) = sum_t ps" by (induction ps) auto
  have 2: "sum_list (map snd ps) = sum_w ps" by (induction ps) auto
  have 3: "sum_list (map (\<lambda>t. t * t) (map fst ps)) = sum_tt ps" by (induction ps) auto
  have 4: "sum_list (map2 (\<lambda>t w. t * w) (map fst ps) (map snd ps)) = sum_tw ps"
    by (induction ps) auto
  show ?thesis
    unfolding polyfit1_def Let_def 1 2 3 4 fit_det_def by simp
qed

lemma normal_equations:
  assumes "fit_det ps \<noteq> 0" "ps \<noteq> []"
  defines "a \<equiv> (real (length ps) * sum_tw ps - sum_t ps * sum_w ps) / fit_det ps"
  defines "b \<equiv> (sum_w ps - a * sum_t ps) / real (length ps)"
  shows "sum_w ps = a * sum_t ps + real (length ps) * b"
    and "sum_tw ps = a * sum_tt ps + b * sum_t ps"
proof -
  define n where "n = real (length ps)"
  have n: "n \<noteq> 0" using assms(2) by (simp add: n_def)
  have b: "b = (sum_w ps - a * sum_t ps) / n" by (simp add: b_def n_def)
  show 1: "sum_w ps = a * sum_t ps + real (length ps) * b"
    using n by (simp add: b n_def [symmetric])
  have ad: "a * fit_det ps = n * sum_tw ps - sum_t ps * sum_w ps"
    using assms(1) by (simp add: a_def n_def)
  have nb: "n * b = sum_w ps - a * sum_t ps" using n by (simp add: b)
  have "n * (a * sum_tt ps + b * sum_t ps) = a * (n * sum_tt ps) + (n * b) * sum_t ps"
    by (simp add: algebra_simps)
  also have "\<dots> = a * (n * sum_tt ps) + (sum_w ps - a * sum_t ps) * sum_t ps"
    by (simp only: nb)
  also have "\<dots> = a * fit_det ps + sum_w ps * sum_t ps"
    by (simp add: fit_det_def n_def algebra_simps)
  also have "\<dots> = n * sum_tw ps" by (simp add: ad)
  finally have "n * (a * sum_tt ps + b * sum_t ps) = n * sum_tw ps" .
  then show "sum_tw ps = a * sum_tt ps + b * sum_t ps" using n by simp
qed

lemma sse_decompose:
  assumes "sum_w ps = a * sum_t ps + real (length ps) * b" "sum_tw ps = a * sum_tt ps + b * sum_t ps"
  shows "sse ps a' b' = sse ps a b + (\<Sum>(t, w)\<leftarrow>ps. ((a' - a) * t + (b' - b))\<^sup>2)"
proof -
  have q: "(\<Sum>(t, w)\<leftarrow>ps. ((a' - a) * t + (b' - b))\<^sup>2) =
      (a' - a) * (a' - a) * sum_tt ps + 2 * (a' - a) * (b' - b) * sum_t ps
      + real (length ps) * (b' - b) * (b' - b)"
  proof (induction ps)
    case Nil
    then show ?case by simp
  next
    case (Cons p ps)
    obtain t w where p: "p = (t, w)" by (cases p)
    have "(\<Sum>(t, w)\<leftarrow>p # ps. ((a' - a) * t + (b' - b))\<^sup>2) =
        ((a' - a) * t + (b' - b))\<^sup>2 + (\<Sum>(t, w)\<leftarrow>ps. ((a' - a) * t + (b' - b))\<^sup>2)"
      by (simp add: p)
    also have "\<dots> = ((a' - a) * t + (b' - b))\<^sup>2 +
        ((a' - a) * (a' - a) * sum_tt ps + 2 * (a' - a) * (b' - b) * sum_t ps
         + real (length ps) * (b' - b) * (b' - b))"
      by (simp only: Cons.IH)
    also have "\<dots> = (a' - a) * (a' - a) * sum_tt (p # ps) + 2 * (a' - a) * (b' - b) * sum_t (p # ps)
      + real (length (p # ps)) * (b' - b) * (b' - b)"
      by (simp add: p power2_eq_square algebra_simps)
    finally show ?case .
  qed
  show ?thesis
    unfolding q sse_expand [of ps a' b'] sse_expand [of ps a b] assms
    by (simp add: algebra_simps)
qed

lemma sum_list_squares_zero:
  "(\<Sum>(t, w)\<leftarrow>ps. (h t w)\<^sup>2) = (0::real) \<Longrightarrow> \<forall>(t, w)\<in>set ps. h t w = 0"
proof (induction ps)
  case Nil
  then show ?case by simp
next
  case (Cons p ps)
  obtain t w where p: "p = (t, w)" by (cases p)
  have nn: "0 \<le> (\<Sum>(t, w)\<leftarrow>ps. (h t w)\<^sup>2)"
    by (rule sum_list_nonneg) auto
  have s: "(h t w)\<^sup>2 + (\<Sum>(t, w)\<leftarrow>ps. (h t w)\<^sup>2) = 0"
    using Cons.prems by (simp add: p)
  have "0 \<le> (h t w)\<^sup>2" by simp
  with s nn have a: "(h t w)\<^sup>2 = 0" and b: "(\<Sum>(t, w)\<leftarrow>ps. (h t w)\<^sup>2) = 0"
    by linarith+
  from a have "h t w = 0" by simp
  with Cons.IH [OF b] show ?case by (simp add: p)
qed

lemma polyfit1_least_squares:
  assumes "\<exists>p\<in>set ps. \<exists>q\<in>set ps. fst p \<noteq> fst q"
  shows "polyfit1 (map fst ps) (map snd ps) = Some (ls_slope ps, ls_intercept ps)"
    and "sse ps (ls_slope ps) (ls_intercept ps) \<le> sse ps a' b'"
    and "sse ps a' b' \<le> sse ps (ls_slope ps) (ls_intercept ps) \<longrightarrow>
           a' = ls_slope ps \<and> b' = ls_intercept ps"
proof -
  define a where "a = (real (length ps) * sum_tw ps - sum_t ps * sum_w ps) / fit_det ps"
  define b where "b = (sum_w ps - a * sum_t ps) / real (length ps)"
  have d: "fit_det ps \<noteq> 0" using fit_det_pos [OF assms] by simp
  have ne: "ps \<noteq> []" using assms by auto
  have pf: "polyfit1 (map fst ps) (map snd ps) = Some (a, b)"
    using d by (simp add: polyfit1_sums a_def b_def)
  have sl: "ls_slope ps = a" by (simp add: ls_slope_def a_def)
  have ic: "ls_intercept ps = b" by (simp add: ls_intercept_def sl b_def)
  show "polyfit1 (map fst ps) (map snd ps) = Some (ls_slope ps, ls_intercept ps)"
    by (simp add: pf sl ic)
  have ne1: "sum_w ps = a * sum_t ps + real (length ps) * b"
    and ne2: "sum_tw ps = a * sum_tt ps + b * sum_t ps"
    using normal_equations [OF d ne] by (simp_all add: a_def b_def)
  have dec: "sse ps a' b' = sse ps a b + (\<Sum>(t, w)\<leftarrow>ps. ((a' - a) * t + (b' - b))\<^sup>2)"
    by (rule sse_decompose [OF ne1 ne2])
  have nn: "0 \<le> (\<Sum>(t, w)\<leftarrow>ps. ((a' - a) * t + (b' - b))\<^sup>2)"
    by (rule sum_list_nonneg) auto
  show "sse ps (ls_slope ps) (ls_intercept ps) \<le> sse ps a' b'"
    using dec nn by (simp add: sl ic)
  show "sse ps a' b' \<le> sse ps (ls_slope ps) (ls_intercept ps) \<longrightarrow>
           a' = ls_slope ps \<and> b' = ls_intercept ps"
  proof
    assume "sse ps a' b' \<le> sse ps (ls_slope ps) (ls_intercept ps)"
    then have "(\<Sum>(t, w)\<leftarrow>ps. ((a' - a) * t + (b' - b))\<^sup>2) = 0"
      using dec nn by (simp add: sl ic)
    then have z: "\<forall>(t, w)\<in>set ps. (a' - a) * t + (b' - b) = 0"
      by (rule sum_list_squares_zero)
    from assms obtain p q where pq: "p \<in> set ps" "q \<in> set ps" "fst p \<noteq> fst q" by blast
    from z pq(1) have zp: "(a' - a) * fst p + (b' - b) = 0" by (cases p) auto
    from z pq(2) have zq: "(a' - a) * fst q + (b' - b) = 0" by (cases q) auto
    from zp zq have "(a' - a) * (fst p - fst q) = 0" by (simp add: algebra_simps)
    with pq(3) have a: "a' = a" by simp
    with zp have "b' = b" by simp
    with a show "a' = ls_slope ps \<and> b' = ls_intercept ps" by (simp add: sl ic)
  qed
qed

section \<open>Properties of the derived rate\<close>

lemma select_simps [simp]:
  "select [] xs = []" "select msk [] = []"
  "select (b # bs) (x # xs) = (if b then x # select bs xs else select bs xs)"
  by (simp_all add: select_def)

lemma valid_samples_Nil [simp]: "valid_samples a b [] ws = []" "valid_samples a b ts [] = []"
  by (simp_all add: valid_samples_def)

lemma valid_samples_Cons [simp]:
  "valid_samples a b (t # ts) (w # ws) =
     (case (t, w) of
        (Some t', Some w') \<Rightarrow>
          if a \<le> t' \<and> t' \<le> b then (t', w') # valid_samples a b ts ws
          else valid_samples a b ts ws
      | _ \<Rightarrow> valid_samples a b ts ws)"
  by (cases t; cases w) (simp_all add: valid_samples_def)

lemma valid_samples_le_window:
  "length (valid_samples a b ts ws) \<le> length (filter (in_window a b) ts)"
proof (induction ts arbitrary: ws)
  case Nil
  then show ?case by simp
next
  case (Cons t ts)
  show ?case
  proof (cases ws)
    case Nil
    then show ?thesis by simp
  next
    case (Cons w ws')
    then show ?thesis
      using Cons.IH [of ws']
      by (auto simp: in_window_def split: option.splits)
  qed
qed

lemma slices_valid_samples:
  assumes "length ts = length ws"
  shows "map the (select (map2 both_valid
                     (select (map (in_window a b) ts) ts) (select (map (in_window a b) ts) ws))
                   (select (map (in_window a b) ts) ts))
           = map fst (valid_samples a b ts ws) \<and>
         map the (select (map2 both_valid
                     (select (map (in_window a b) ts) ts) (select (map (in_window a b) ts) ws))
                   (select (map (in_window a b) ts) ws))
           = map snd (valid_samples a b ts ws)"
  using assms
proof (induction ts ws rule: list_induct2)
  case Nil
  then show ?case by simp
next
  case (Cons t ts w ws)
  then show ?case
    by (cases t; cases w) (auto simp: in_window_def both_valid_def)
qed

lemma length_slices:
  assumes "length ts = length ws"
  shows "length (select (map2 both_valid
                     (select (map (in_window a b) ts) ts) (select (map (in_window a b) ts) ws))
                   (select (map (in_window a b) ts) ts))
           = length (valid_samples a b ts ws)"
proof -
  have "length (map the (select (map2 both_valid
                     (select (map (in_window a b) ts) ts) (select (map (in_window a b) ts) ws))
                   (select (map (in_window a b) ts) ts)))
        = length (map fst (valid_samples a b ts ws))"
    using slices_valid_samples [OF assms, of a b] by simp
  then show ?thesis by simp
qed

lemma calculate_mdot_few:
  assumes "start_time w = Some a" "end_time w = Some b"
    "time_data_numeric w = Some time_data" "df w (plot_weight_col w) = Some wcol"
    "length wcol = length time_data"
    "length (valid_samples a b time_data (map to_numeric wcol)) < 2"
  shows "calculate_mdot to_numeric w = NoMdot"
proof -
  have len: "length time_data = length (map to_numeric wcol)" using assms(5) by simp
  note ls = length_slices [OF len, of a b]
  show ?thesis
    using assms(1-5) assms(6) ls
    by (simp add: calculate_mdot_def Let_def comp_def)
qed

lemma calculate_mdot_fit:
  assumes "start_time w = Some a" "end_time w = Some b" "plot_weight_col w \<noteq> []"
    "time_data_numeric w = Some time_data" "df w (plot_weight_col w) = Some wcol"
    "length wcol = length time_data"
    "2 \<le> length (valid_samples a b time_data (map to_numeric wcol))"
  shows "calculate_mdot to_numeric w =
     (case polyfit1 (map fst (valid_samples a b time_data (map to_numeric wcol)))
                    (map snd (valid_samples a b time_data (map to_numeric wcol))) of
        None \<Rightarrow> RankDeficient
      | Some (slope, intercept) \<Rightarrow> Mdot (- slope * LBS_TO_KG))"
proof -
  have len: "length time_data = length (map to_numeric wcol)" using assms(6) by simp
  note ls = length_slices [OF len, of a b]
  note sv = slices_valid_samples [OF len, of a b]
  have cnt: "2 \<le> length (filter (in_window a b) time_data)"
    using assms(7) valid_samples_le_window [of a b time_data "map to_numeric wcol"] by linarith
  then have ex: "list_ex (\<lambda>m. m) (map (in_window a b) time_data)"
    by (cases "filter (in_window a b) time_data")
       (auto simp: list_ex_iff filter_eq_Cons_iff)
  show ?thesis
    using assms(1-6) assms(7) ls sv cnt ex
    by (simp add: calculate_mdot_def Let_def comp_def split: option.splits)
qed

text \<open>
  C1. With a window (start, end), a weight column of the table and the stored time
  array: the samples are the rows whose time and weight are both numbers and whose
  time lies in [start, end]. With fewer than two of them the rate is undefined. With
  two or more and at least two distinct times, the rate is minus the least-squares
  slope of weight against time, times 0.453592; that slope and its intercept minimise
  the sum of squared residuals, and no other line does.
\<close>

theorem calculate_mdot_least_squares:
  assumes "start_time w = Some a" "end_time w = Some b" "plot_weight_col w \<noteq> []"
    "time_data_numeric w = Some time_data" "df w (plot_weight_col w) = Some wcol"
    "length wcol = length time_data"
  shows "let ps = valid_samples a b time_data (map to_numeric wcol) in
     (length ps < 2 \<longrightarrow> calculate_mdot to_numeric w = NoMdot) \<and>
     (2 \<le> length ps \<and> (\<exists>p\<in>set ps. \<exists>q\<in>set ps. fst p \<noteq> fst q) \<longrightarrow>
        calculate_mdot to_numeric w = Mdot (- ls_slope ps * 0.453592) \<and>
        (\<forall>a' b'. sse ps (ls_slope ps) (ls_intercept ps) \<le> sse ps a' b') \<and>
        (\<forall>a' b'. sse ps a' b' \<le> sse ps (ls_slope ps) (ls_intercept ps) \<longrightarrow>
                  a' = ls_slope ps \<and> b' = ls_intercept ps))"
proof -
  define ps where "ps = valid_samples a b time_data (map to_numeric wcol)"
  have few: "calculate_mdot to_numeric w = NoMdot" if "length ps < 2"
    using calculate_mdot_few [OF assms(1,2,4,5,6)] that by (simp add: ps_def)
  have fit: "calculate_mdot to_numeric w = Mdot (- ls_slope ps * 0.453592)"
    if "2 \<le> length ps" and nc: "\<exists>p\<in>set ps. \<exists>q\<in>set ps. fst p \<noteq> fst q"
  proof -
    have "calculate_mdot to_numeric w =
       (case polyfit1 (map fst ps) (map snd ps) of
          None \<Rightarrow> RankDeficient
        | Some (slope, intercept) \<Rightarrow> Mdot (- slope * LBS_TO_KG))"
      using calculate_mdot_fit [OF assms] that(1) by (simp add: ps_def)
    then show ?thesis
      by (simp add: polyfit1_least_squares(1) [OF nc] LBS_TO_KG_def)
  qed
  have "(length ps < 2 \<longrightarrow> calculate_mdot to_numeric w = NoMdot) \<and>
     (2 \<le> length ps \<and> (\<exists>p\<in>set ps. \<exists>q\<in>set ps. fst p \<noteq> fst q) \<longrightarrow>
        calculate_mdot to_numeric w = Mdot (- ls_slope ps * 0.453592) \<and>
        (\<forall>a' b'. sse ps (ls_slope ps) (ls_intercept ps) \<le> sse ps a' b') \<and>
        (\<forall>a' b'. sse ps a' b' \<le> sse ps (ls_slope ps) (ls_intercept ps) \<longrightarrow>
                  a' = ls_slope ps \<and> b' = ls_intercept ps))"
    using few fit polyfit1_least_squares(2,3) [of ps] by blast
  then show ?thesis unfolding Let_def ps_def .
qed

theorem calculate_mdot_least_squares_witness:
  "valid_samples 1 3 [Some 0, Some 1, Some 2, Some 3, Some 4]
     (map cell_to_numeric [Number 10, Number 8, Text, Number 4, Number 2]) = [(1, 8), (3, 4)] \<and>
   calculate_mdot cell_to_numeric mdot_example = Mdot 0.907184 \<and>
   calculate_mdot cell_to_numeric (mdot_example\<lparr>end_time := Some 2\<rparr>) = NoMdot"
proof -
  let ?time = "[Some 0, Some 1, Some 2, Some 3, Some (4::real)]"
  let ?wcol = "[Number 10, Number 8, Text, Number 4, Number 2]"
  have f: "start_time mdot_example = Some 1" "end_time mdot_example = Some 3"
    "plot_weight_col mdot_example \<noteq> []"
    "time_data_numeric mdot_example = Some ?time"
    "df mdot_example (plot_weight_col mdot_example) = Some ?wcol"
    "length ?wcol = length ?time"
    by (simp_all add: mdot_example_def)
  have g: "start_time (mdot_example\<lparr>end_time := Some 2\<rparr>) = Some 1"
    "end_time (mdot_example\<lparr>end_time := Some 2\<rparr>) = Some 2"
    "plot_weight_col (mdot_example\<lparr>end_time := Some 2\<rparr>) \<noteq> []"
    "time_data_numeric (mdot_example\<lparr>end_time := Some 2\<rparr>) = Some ?time"
    "df (mdot_example\<lparr>end_time := Some 2\<rparr>)
        (plot_weight_col (mdot_example\<lparr>end_time := Some 2\<rparr>)) = Some ?wcol"
    "length ?wcol = length ?time"
    by (simp_all add: mdot_example_def)
  have v: "valid_samples 1 3 ?time (map cell_to_numeric ?wcol) = [(1, 8), (3, 4)]"
    by simp
  have v2: "valid_samples 1 2 ?time (map cell_to_numeric ?wcol) = [(1, 8)]"
    by simp
  have sl: "- ls_slope [(1, 8), (3, 4)] * 0.453592 = 0.907184"
    by (simp add: ls_slope_def fit_det_def)
  have two: "2 \<le> length [(1::real, 8::real), (3, 4)]" by simp
  have nc: "\<exists>p\<in>set [(1::real, 8::real), (3, 4)]. \<exists>q\<in>set [(1, 8), (3, 4)]. fst p \<noteq> fst q"
    by (rule bexI [where x = "(1, 8)"], rule bexI [where x = "(3, 4)"]) simp_all
  have one: "length [(1::real, 8::real)] < 2" by simp
  have "calculate_mdot cell_to_numeric mdot_example = Mdot (- ls_slope [(1, 8), (3, 4)] * 0.453592)"
    using calculate_mdot_least_squares [OF f, of cell_to_numeric] two nc
    unfolding Let_def v by blast
  then have 1: "calculate_mdot cell_to_numeric mdot_example = Mdot 0.907184"
    by (simp only: sl)
  have 2: "calculate_mdot cell_to_numeric (mdot_example\<lparr>end_time := Some 2\<rparr>) = NoMdot"
    using calculate_mdot_least_squares [OF g, of cell_to_numeric] one
    unfolding Let_def v2 by blast
  show ?thesis using v 1 2 by blast
qed

section \<open>Plot decimation\<close>

lemma every_nth_one [simp]: "every_nth (Suc 0) xs = xs"
  by (induction xs) simp_all

lemma select_all_valid:
  assumes "length ts = length ps" "\<forall>t\<in>set ts. t \<noteq> None" "\<forall>p\<in>set ps. p \<noteq> None"
  shows "select (map2 both_valid ts ps) ts = ts \<and>
         select (map2 both_valid ts ps) ps = ps"
  using assms by (induction ts ps rule: list_induct2) (auto simp: both_valid_def)

lemma isna_all_iff: "isna_all xs \<longleftrightarrow> (\<forall>x\<in>set xs. x = None)"
  by (simp add: isna_all_def list_all_iff)

lemma prepare_plot_data_all_numeric:
  assumes "df w (plot_time_col w) = Some tc" "df w (plot_pressure_col w) = Some pc"
    "length tc = length pc" "tc \<noteq> []"
    "\<forall>c\<in>set tc. to_numeric c \<noteq> None" "\<forall>c\<in>set pc. to_numeric c \<noteq> None"
    "plot_weight_col w = []"
  shows "prepare_plot_data to_numeric to_datetime w =
     (w\<lparr>time_data_numeric := Some (map to_numeric tc)\<rparr>,
      Inr (map to_numeric tc, map to_numeric pc, None))"
proof -
  have na: "\<not> isna_all (map to_numeric tc)"
    using assms(4,5) by (cases tc) (auto simp: isna_all_iff)
  have sel: "select (map2 both_valid (map to_numeric tc) (map to_numeric pc))
               (map to_numeric tc) = map to_numeric tc"
    "select (map2 both_valid (map to_numeric tc) (map to_numeric pc))
               (map to_numeric pc) = map to_numeric pc"
    using select_all_valid [of "map to_numeric tc" "map to_numeric pc"] assms(3,5,6)
    by auto
  show ?thesis
    using assms(1,2,4,7) na
    by (simp add: prepare_plot_data_def Let_def sel)
qed



text \<open>
  The point limit is not a bound on the plot: for a table of 3999 valid rows the stride
  is max 1 (3999 div 2000) = 1 and all 3999 points are plotted, more than
  \<open>MAX_PLOT_POINTS\<close>.
\<close>

lemma create_plot_exceeds_max_plot_points:
  "snd (create_plot cell_to_numeric cell_to_datetime table_3999) =
     Inr (map (\<lambda>i. Some (real i)) [0..<3999], replicate 3999 (Some 500), None) \<and>
   MAX_PLOT_POINTS < length (map (\<lambda>i. Some (real i)) [0..<3999])"
proof -
  let ?tc = "map (\<lambda>i. Number (real i)) [0..<3999]"
  let ?pc = "replicate 3999 (Number 500)"
  have p: "prepare_plot_data cell_to_numeric cell_to_datetime table_3999 =
     (table_3999\<lparr>time_data_numeric := Some (map cell_to_numeric ?tc)\<rparr>,
      Inr (map cell_to_numeric ?tc, map cell_to_numeric ?pc, None))"
  proof (rule prepare_plot_data_all_numeric)
    show "df table_3999 (plot_time_col table_3999) = Some ?tc"
      by (simp add: table_3999_def)
    show "df table_3999 (plot_pressure_col table_3999) = Some ?pc"
      by (simp add: table_3999_def)
    show "length ?tc = length ?pc" by simp
    show "?tc \<noteq> []" by simp
    show "\<forall>c\<in>set ?tc. cell_to_numeric c \<noteq> None" by auto
    show "\<forall>c\<in>set ?pc. cell_to_numeric c \<noteq> None" by auto
    show "plot_weight_col table_3999 = []" by (simp add: table_3999_def)
  qed
  have t: "map cell_to_numeric ?tc = map (\<lambda>i. Some (real i)) [0..<3999]"
    by (simp add: comp_def)
  have q: "map cell_to_numeric ?pc = replicate 3999 (Some 500)" by simp
  have d: "(3999::nat) div 2000 = 1" by simp
  have 1: "snd (create_plot cell_to_numeric cell_to_datetime table_3999) =
     Inr (map (\<lambda>i. Some (real i)) [0..<3999], replicate 3999 (Some 500), None)"
    unfolding create_plot_def create_plot_with_def p t q
    by (simp add: Let_def MAX_PLOT_POINTS_def d)
  have 2: "MAX_PLOT_POINTS < length (map (\<lambda>i. Some (real i)) [0..<3999])"
    by (simp add: MAX_PLOT_POINTS_def)
  show ?thesis using 1 2 by (rule conjI)
qed

section \<open>Properties of the time parsing\<close>

lemma somes_set: "set [v. Some v \<leftarrow> xs] = {v. Some v \<in> set xs}"
  by (induction xs) (auto split: option.splits)

lemma series_min_earliest:
  assumes "\<not> isna_all xs"
  shows "series_min xs = Some (earliest xs)"
proof -
  from assms obtain v where "Some v \<in> set xs"
    by (auto simp: isna_all_iff)
  then have "v \<in> set [v. Some v \<leftarrow> xs]" by (simp add: somes_set)
  then obtain u us where l: "[v. Some v \<leftarrow> xs] = u # us"
    by (cases "[v. Some v \<leftarrow> xs]") auto
  have "fold min us u = Min (set (u # us))" by (rule Min.set_eq_fold [symmetric])
  then show ?thesis by (simp only: series_min_def earliest_def l list.case)
qed

lemma get_numeric_time_data_cases:
  "get_numeric_time_data to_numeric to_datetime col =
     (if \<exists>c\<in>set col. to_numeric c \<noteq> None then Some (map to_numeric col)
      else if \<exists>c\<in>set col. to_datetime c \<noteq> None
        then Some (map (map_option (\<lambda>d. d - earliest (map to_datetime col)))
                       (map to_datetime col))
      else None)"
proof -
  have n: "isna_all (map to_numeric col) \<longleftrightarrow> \<not> (\<exists>c\<in>set col. to_numeric c \<noteq> None)"
    by (auto simp: isna_all_iff)
  have d: "isna_all (map to_datetime col) \<longleftrightarrow> \<not> (\<exists>c\<in>set col. to_datetime c \<noteq> None)"
    by (auto simp: isna_all_iff)
  have m: "\<not> isna_all (map to_datetime col) \<Longrightarrow>
      seconds_from_min (map to_datetime col) =
        map (map_option (\<lambda>d. d - earliest (map to_datetime col))) (map to_datetime col)"
    by (simp add: seconds_from_min_def series_min_earliest)
  show ?thesis
    unfolding get_numeric_time_data_def Let_def
    using n d m by auto
qed

lemma prepare_plot_data_time:
  assumes "df w (plot_time_col w) = Some col"
  shows "get_numeric_time_data to_numeric to_datetime col = None \<longrightarrow>
           prepare_plot_data to_numeric to_datetime w = (w, Inl CouldNotParseTime)"
    and "get_numeric_time_data to_numeric to_datetime col = Some ts \<and>
         df w (plot_pressure_col w) \<noteq> None \<longrightarrow>
           time_data_numeric (fst (prepare_plot_data to_numeric to_datetime w)) = Some ts"
  using assms
  by (auto simp: prepare_plot_data_def get_numeric_time_data_def Let_def
      split: option.splits if_splits)

text \<open>
  C8, as amended. If some entry of the time column is numeric, the result is the
  numeric reading of the column. Otherwise, if some entry parses as a timestamp, it is
  the elapsed seconds measured from the earliest parsed timestamp. Otherwise there is
  no result: the calculator's function returns None, and the plot preparation fails
  with the parse error and leaves the window as it was. Where the plot preparation
  gets past the pressure column, the array it stores is the one just described.
\<close>

theorem time_column_parsing:
  "get_numeric_time_data to_numeric to_datetime col =
     (if \<exists>c\<in>set col. to_numeric c \<noteq> None then Some (map to_numeric col)
      else if \<exists>c\<in>set col. to_datetime c \<noteq> None
        then Some (map (map_option (\<lambda>d. d - earliest (map to_datetime col)))
                       (map to_datetime col))
      else None) \<and>
   (df w (plot_time_col w) = Some col \<longrightarrow>
      (get_numeric_time_data to_numeric to_datetime col = None \<longrightarrow>
         prepare_plot_data to_numeric to_datetime w = (w, Inl CouldNotParseTime)) \<and>
      (\<forall>ts. get_numeric_time_data to_numeric to_datetime col = Some ts \<and>
            df w (plot_pressure_col w) \<noteq> None \<longrightarrow>
         time_data_numeric (fst (prepare_plot_data to_numeric to_datetime w)) = Some ts))"
  using get_numeric_time_data_cases [of to_numeric to_datetime col]
    prepare_plot_data_time [of w col to_numeric to_datetime]
  by blast

theorem time_column_parsing_witness:
  "get_numeric_time_data cell_to_numeric cell_to_datetime [Timestamp 10, Text, Timestamp 5] =
     Some [Some 5, None, Some 0] \<and>
   get_numeric_time_data cell_to_numeric cell_to_datetime [Text, Number 2, Timestamp 5] =
     Some [None, Some 2, None] \<and>
   get_numeric_time_data cell_to_numeric cell_to_datetime [Text, Text] = None \<and>
   prepare_plot_data cell_to_numeric cell_to_datetime
     (mdot_example\<lparr>df := [''t'' \<mapsto> [Text, Text]]\<rparr>) =
     (mdot_example\<lparr>df := [''t'' \<mapsto> [Text, Text]]\<rparr>, Inl CouldNotParseTime)"
proof -
  have e: "earliest [Some 10, None, Some 5] = 5"
    by (simp add: earliest_def)
  have c: "df (mdot_example\<lparr>df := [''t'' \<mapsto> [Text, Text]]\<rparr>)
             (plot_time_col (mdot_example\<lparr>df := [''t'' \<mapsto> [Text, Text]]\<rparr>)) = Some [Text, Text]"
    by (simp add: mdot_example_def)
  note t1 = time_column_parsing [of cell_to_numeric cell_to_datetime
      "[Timestamp 10, Text, Timestamp 5]" mdot_example]
  note t2 = time_column_parsing [of cell_to_numeric cell_to_datetime
      "[Text, Number 2, Timestamp 5]" mdot_example]
  note t3 = time_column_parsing [of cell_to_numeric cell_to_datetime
      "[Text, Text]" "mdot_example\<lparr>df := [''t'' \<mapsto> [Text, Text]]\<rparr>"]
  have 1: "get_numeric_time_data cell_to_numeric cell_to_datetime
      [Timestamp 10, Text, Timestamp 5] = Some [Some 5, None, Some 0]"
    using t1 by (simp add: e)
  have 2: "get_numeric_time_data cell_to_numeric cell_to_datetime
      [Text, Number 2, Timestamp 5] = Some [None, Some 2, None]"
    using t2 by simp
  have 3: "get_numeric_time_data cell_to_numeric cell_to_datetime [Text, Text] = None"
    using t3 by simp
  have 4: "prepare_plot_data cell_to_numeric cell_to_datetime
     (mdot_example\<lparr>df := [''t'' \<mapsto> [Text, Text]]\<rparr>) =
     (mdot_example\<lparr>df := [''t'' \<mapsto> [Text, Text]]\<rparr>, Inl CouldNotParseTime)"
    using t3 c 3 by blast
  show ?thesis using 1 2 3 4 by blast
qed

text \<open>
  C8 as written fails when the first timestamp is not the earliest: for the timestamps
  10 s and 5 s the result is 5 and 0, measured from the earliest; measured from the
  first it would be 0 and -5.
\<close>

theorem elapsed_from_first_counterexample:
  "get_numeric_time_data cell_to_numeric cell_to_datetime [Timestamp 10, Timestamp 5] =
     Some [Some 5, Some 0] \<and>
   seconds_from_first (map cell_to_datetime [Timestamp 10, Timestamp 5]) = [Some 0, Some (- 5)]"
  by (simp add: get_numeric_time_data_def isna_all_def seconds_from_min_def series_min_def
      seconds_from_first_def)

section \<open>The rate and the decimation\<close>








end
